theory Spec2Isabelle
  imports Complex_Main
begin

section \<open>Numbers, vectors and the scene graph\<close>

text \<open>
  The simulator is JavaScript on top of three.js. Every JavaScript number is modelled as a
  \<^typ>\<open>real\<close>: the arithmetic of the source is kept expression by expression, rounding,
  \<open>NaN\<close> and the infinities are not modelled. On such numbers the repository's
  \<open>Validation.sanitizeNumber\<close> and \<open>Validation.sanitizeVector3\<close> (they replace
  \<open>NaN\<close> and infinite components by a default) return their argument, so they do not
  appear below. A property that may be \<open>undefined\<close> is an \<^typ>\<open>'a option\<close>.
\<close>

record vec3 =
  vx :: real
  vy :: real
  vz :: real

text \<open>\<open>Vector3.length()\<close> and \<open>Vector3.distanceTo(v)\<close> of three.js.\<close>

definition vlength :: "vec3 \<Rightarrow> real" where
  "vlength v = sqrt (vx v * vx v + vy v * vy v + vz v * vz v)"

definition distanceTo :: "vec3 \<Rightarrow> vec3 \<Rightarrow> real" where
  "distanceTo a b =
     sqrt ((vx a - vx b) * (vx a - vx b) + (vy a - vy b) * (vy a - vy b)
           + (vz a - vz b) * (vz a - vz b))"

text \<open>
  An \<open>Object3D\<close> of the scene graph: its \<open>name\<close> (the empty string when not set), its
  \<open>position\<close>, and the fields of \<open>userData\<close> that the collision and damage code reads
  and writes. \<open>m_parent\<close> is the \<open>parent\<close> link: the object is a direct child of the
  scene, sits inside a group, or is detached. Every \<open>Object3D\<close> has a position, so
  the tests \<open>!mesh.position\<close> of the source never fire.
\<close>

datatype parent = Detached | InScene | InGroup

record mesh =
  m_name :: string
  m_isProjectile :: bool
  m_type :: "string option"
  m_position :: vec3
  m_parent :: parent
  m_health :: "real option"
  m_maxHealth :: "real option"
  m_isDragging :: bool
  m_isExploding :: bool
  m_explosive :: bool

text \<open>
  Objects have identity (\<open>child !== barrel.mesh\<close>), and several wrappers may refer to the
  same object: the objects live in a store indexed by an identifier, and a reference is
  such an identifier.
\<close>

type_synonym objects = "nat \<Rightarrow> mesh"

text \<open>
  The target wrapper built by \<open>CollisionDetector.getCollisionTargets\<close>:
  \<open>{mesh, type, position, boundingBox}\<close>. The mesh reference may be missing
  (\<open>!target.mesh\<close> is tested throughout).
\<close>

record box3 =
  bmin :: vec3
  bmax :: vec3

record target =
  t_mesh :: "nat option"
  t_type :: string
  t_position :: "vec3 option"
  t_boundingBox :: "box3 option"

section \<open>CollisionManager: health tables and direct damage\<close>

text \<open>\<open>CollisionManager.getBaseHealth(targetType)\<close>: a \<open>switch\<close> with a default.\<close>

definition getBaseHealth :: "string \<Rightarrow> real" where
  "getBaseHealth targetType =
     (if targetType = ''wall'' then 200
      else if targetType = ''tower'' then 200
      else if targetType = ''siegeTower'' then 200
      else if targetType = ''barrel'' then 100
      else 300)"

text \<open>\<open>DamageHandler.getBaseHealthForExplosion(targetType)\<close>.\<close>

definition getBaseHealthForExplosion :: "string \<Rightarrow> real" where
  "getBaseHealthForExplosion targetType =
     (if targetType = ''wall'' then 200
      else if targetType = ''tower'' then 200
      else if targetType = ''siegeTower'' then 200
      else if targetType = ''barrel'' then 50
      else 100)"

text \<open>
  \<open>CollisionManager.getTargetResistance(target)\<close>: \<open>resistances[target.type] || 0\<close>.
  The object literal has four own keys; a missing key and the value \<open>0\<close> both give
  \<open>0\<close>. (Type tags are the ones the repository assigns; the names that every JavaScript
  object inherits from \<open>Object.prototype\<close> are not among them.)
\<close>

definition resistances :: "(string \<times> real) list" where
  "resistances = [(''wall'', 0.3), (''tower'', 0.4), (''siegeTower'', 0.2), (''barrel'', 0)]"

definition getTargetResistance :: "target \<Rightarrow> real" where
  "getTargetResistance t =
     (case map_of resistances (t_type t) of
        None \<Rightarrow> 0
      | Some r \<Rightarrow> if r = 0 then 0 else r)"

text \<open>JavaScript truthiness of a numeric property: \<open>undefined\<close> and \<open>0\<close> are falsy.\<close>

definition truthy :: "real option \<Rightarrow> bool" where
  "truthy v = (case v of None \<Rightarrow> False | Some x \<Rightarrow> x \<noteq> 0)"

text \<open>\<open>CollisionManager.initializeTargetHealth(target)\<close>, on the referenced mesh.\<close>

definition initializeTargetHealth :: "string \<Rightarrow> mesh \<Rightarrow> mesh" where
  "initializeTargetHealth ty m =
     (let baseHealth = getBaseHealth ty
      in m\<lparr>m_health := Some baseHealth, m_maxHealth := Some baseHealth\<rparr>)"

text \<open>
  \<open>CollisionManager.applyDamage(target, damage)\<close>. Returns the updated store and the
  value \<open>actualDamage\<close>; \<open>None\<close> is the \<open>TypeError\<close> of reading
  \<open>target.mesh.userData\<close> when the wrapper has no mesh.
\<close>

definition applyDamage :: "objects \<Rightarrow> target \<Rightarrow> real \<Rightarrow> (objects \<times> real) option" where
  "applyDamage objs t damage =
     (case t_mesh t of
        None \<Rightarrow> None
      | Some i \<Rightarrow>
          let m0 = objs i;
              m1 = (if \<not> truthy (m_health m0) then initializeTargetHealth (t_type t) m0 else m0);
              resistance = getTargetResistance t;
              actualDamage = damage * (1 - resistance);
              m2 = m1\<lparr>m_health := Some (max 0 (the (m_health m1) - actualDamage))\<rparr>
          in Some (objs(i := m2), actualDamage))"

text \<open>\<open>CollisionManager.shouldDestroyTarget(target)\<close>, on the referenced mesh.\<close>

definition shouldDestroyTarget :: "mesh \<Rightarrow> bool" where
  "shouldDestroyTarget m = (case m_health m of None \<Rightarrow> False | Some h \<Rightarrow> h \<le> 0)"

section \<open>DamageHandler: area damage\<close>

text \<open>
  The body of the \<open>forEach\<close> in \<open>DamageHandler.explosionDamage\<close>, for one entry of
  \<open>targets\<close>: the updated store and the entry pushed on \<open>damagedTargetsInfo\<close>. An
  entry of the list may be \<open>null\<close>, and a wrapper may lack its mesh. The call of
  \<open>applyDamageVisuals\<close> changes material colours only and is not modelled.
\<close>

definition explosionDamageTarget ::
  "vec3 \<Rightarrow> real \<Rightarrow> real \<Rightarrow> target option \<Rightarrow> objects \<Rightarrow> objects \<times> (target option \<times> bool)" where
  "explosionDamageTarget center radius maxDamage targetWrapper objs =
     (case targetWrapper of
        None \<Rightarrow> (objs, (targetWrapper, False))
      | Some tw \<Rightarrow>
         (case t_mesh tw of
            None \<Rightarrow> (objs, (targetWrapper, False))
          | Some i \<Rightarrow>
             let mesh = objs i;
                 distance = distanceTo center (m_position mesh)
             in if distance < radius then
                  let damageRatio = 1 - distance / radius;
                      damage = real_of_int \<lfloor>maxDamage * damageRatio\<rfloor>
                  in if t_type tw \<noteq> ''ground'' then
                       let mesh1 = (if m_health mesh = None
                                    then mesh\<lparr>m_maxHealth := Some (getBaseHealthForExplosion (t_type tw)),
                                              m_health := Some (getBaseHealthForExplosion (t_type tw))\<rparr>
                                    else mesh);
                           mesh2 = (if m_maxHealth mesh1 = None \<and> m_health mesh1 \<noteq> None
                                    then mesh1\<lparr>m_maxHealth :=
                                           Some (max (the (m_health mesh1))
                                                     (getBaseHealthForExplosion (t_type tw)))\<rparr>
                                    else mesh1);
                           mesh3 = mesh2\<lparr>m_health := Some (the (m_health mesh2) - damage)\<rparr>;
                           mesh4 = mesh3\<lparr>m_health := Some (max 0 (the (m_health mesh3)))\<rparr>
                       in if the (m_health mesh4) \<le> 0
                          then (objs(i := mesh4), (targetWrapper, True))
                          else (objs(i := mesh4), (targetWrapper, False))
                     else (objs, (targetWrapper, False))
                else (objs, (targetWrapper, False))))"

text \<open>
  \<open>DamageHandler.explosionDamage(center, radius, maxDamage, targets)\<close>: the entries are
  processed in order on the shared store; the result list has one entry per target.
\<close>

fun explosionDamage ::
  "vec3 \<Rightarrow> real \<Rightarrow> real \<Rightarrow> target option list \<Rightarrow> objects
     \<Rightarrow> objects \<times> (target option \<times> bool) list" where
  "explosionDamage center radius maxDamage [] objs = (objs, [])"
| "explosionDamage center radius maxDamage (tw # tws) objs =
     (let (objs1, info) = explosionDamageTarget center radius maxDamage tw objs;
          (objs2, infos) = explosionDamage center radius maxDamage tws objs1
      in (objs2, info # infos))"

section \<open>CollisionDetector\<close>

text \<open>
  A projectile: an \<open>Object3D\<close> with the \<open>userData\<close> written by the catapult
  (\<open>radius\<close>, \<open>velocity\<close>, \<open>bounces\<close>, \<open>maxBounces\<close>, \<open>gravity\<close>, \<open>active\<close>,
  \<open>hasCollided\<close>, \<open>onCollision\<close>). The bounce counters start at \<open>0\<close> and \<open>3\<close> and
  are only incremented, so they are natural numbers; \<open>p_onCollision\<close> tells whether a
  callback is registered.
\<close>

record projectile =
  p_position :: vec3
  p_velocity :: "vec3 option"
  p_radius :: "real option"
  p_gravity :: real
  p_bounces :: "nat option"
  p_maxBounces :: "nat option"
  p_active :: bool
  p_hasCollided :: bool
  p_onCollision :: bool

text \<open>\<open>x || d\<close> on a number that may be \<open>undefined\<close>.\<close>

definition orElse :: "real option \<Rightarrow> real \<Rightarrow> real" where
  "orElse v d = (case v of None \<Rightarrow> d | Some x \<Rightarrow> if x = 0 then d else x)"

definition orElseNat :: "nat option \<Rightarrow> nat \<Rightarrow> nat" where
  "orElseNat v d = (case v of None \<Rightarrow> d | Some x \<Rightarrow> if x = 0 then d else x)"

text \<open>\<open>Box3.clampPoint(point, target)\<close> of three.js: componentwise clamp to the box.\<close>

definition clampPoint :: "box3 \<Rightarrow> vec3 \<Rightarrow> vec3" where
  "clampPoint b p =
     \<lparr>vx = max (vx (bmin b)) (min (vx (bmax b)) (vx p)),
      vy = max (vy (bmin b)) (min (vy (bmax b)) (vy p)),
      vz = max (vz (bmin b)) (min (vz (bmax b)) (vz p))\<rparr>"

text \<open>\<open>CollisionDetector.checkSphereBoxCollision(spherePos, sphereRadius, box)\<close>.\<close>

definition checkSphereBoxCollision :: "vec3 option \<Rightarrow> real \<Rightarrow> box3 option \<Rightarrow> bool" where
  "checkSphereBoxCollision spherePos sphereRadius box =
     (case (spherePos, box) of
        (Some sp, Some b) \<Rightarrow>
          (let closestPoint = clampPoint b sp;
               distance = distanceTo sp closestPoint
           in distance \<le> sphereRadius)
      | _ \<Rightarrow> False)"

text \<open>\<open>CollisionDetector.getCollisionRadius(targetType)\<close>: \<open>radii[targetType] || radii.default\<close>.\<close>

definition radii :: "(string \<times> real) list" where
  "radii = [(''barrel'', 1.0), (''wall'', 2.0), (''tower'', 3.0), (''siegeTower'', 2.5),
            (''ground'', 0.5), (''default'', 1.0)]"

definition getCollisionRadius :: "string \<Rightarrow> real" where
  "getCollisionRadius targetType = orElse (map_of radii targetType) 1.0"







text \<open>
  \<open>CollisionDetector.checkProjectileTargetCollision(projectile, target)\<close>.
  \<open>fallbackBox i\<close> is the result of \<open>this.getBoundingBox(target.mesh)\<close>, used when the
  wrapper carries no box.
\<close>

definition velocityScale :: "vec3 option \<Rightarrow> real" where
  "velocityScale velocity =
     (case velocity of Some v \<Rightarrow> min (vlength v * 0.1) 1.5 | None \<Rightarrow> 1.0)"

definition checkProjectileTargetCollision ::
  "objects \<Rightarrow> (nat \<Rightarrow> box3 option) \<Rightarrow> projectile option \<Rightarrow> target option \<Rightarrow> bool" where
  "checkProjectileTargetCollision objs fallbackBox projectile tgt =
     (case (projectile, tgt) of
        (Some p, Some t) \<Rightarrow>
          (case t_mesh t of
             None \<Rightarrow> False
           | Some i \<Rightarrow>
               let projectilePos = p_position p;
                   targetPos = (case t_position t of Some q \<Rightarrow> q | None \<Rightarrow> m_position (objs i));
                   velocity = p_velocity p;
                   baseRadius = orElse (p_radius p) 0.3;
                   projectileRadius = baseRadius * velocityScale velocity
               in if t_type t = ''wall'' \<or> t_type t = ''tower'' then
                    let box = (case t_boundingBox t of Some b \<Rightarrow> Some b | None \<Rightarrow> fallbackBox i)
                    in checkSphereBoxCollision (Some projectilePos) projectileRadius box
                  else
                    let collisionRadius = getCollisionRadius (t_type t);
                        distance = distanceTo projectilePos targetPos;
                        totalRadius = collisionRadius + projectileRadius
                    in distance \<le> totalRadius)
      | _ \<Rightarrow> False)"

text \<open>
  \<open>CollisionDetector.getCollisionTargets(scene)\<close>. The callback of \<open>scene.traverse\<close>,
  for the object \<open>i\<close>: the wrappers it pushes. \<open>boxOf i\<close> is the result of
  \<open>this.getBoundingBox(object)\<close>. A projectile is skipped; an object with a type tag
  gets a wrapper of that type; an object named \<open>ground\<close> gets a wrapper of type
  \<open>ground\<close> as well; an object named \<open>wall\<close>, \<open>tower\<close> or \<open>siegeTower\<close> gets a
  wrapper of that name only if it has no type tag.
\<close>

definition hasType :: "mesh \<Rightarrow> bool" where
  "hasType object = (case m_type object of None \<Rightarrow> False | Some ty \<Rightarrow> ty \<noteq> [])"

definition wrapper :: "(nat \<Rightarrow> box3 option) \<Rightarrow> objects \<Rightarrow> nat \<Rightarrow> string \<Rightarrow> target option" where
  "wrapper boxOf objs i ty =
     Some \<lparr>t_mesh = Some i, t_type = ty, t_position = Some (m_position (objs i)),
           t_boundingBox = boxOf i\<rparr>"

definition getCollisionTargets_object ::
  "(nat \<Rightarrow> box3 option) \<Rightarrow> objects \<Rightarrow> nat \<Rightarrow> target option list" where
  "getCollisionTargets_object boxOf objs i =
     (let object = objs i
      in if m_isProjectile object then []
         else
           (if hasType object then [wrapper boxOf objs i (the (m_type object))] else [])
           @ (if m_name object = ''ground'' then [wrapper boxOf objs i ''ground'']
              else if m_name object = ''wall'' \<or> m_name object = ''tower''
                      \<or> m_name object = ''siegeTower''
              then (if \<not> hasType object then [wrapper boxOf objs i (m_name object)] else [])
              else []))"

text \<open>The traversal visits the objects of the scene graph in the order \<open>ids\<close>.\<close>

definition getCollisionTargets ::
  "(nat \<Rightarrow> box3 option) \<Rightarrow> objects \<Rightarrow> nat list \<Rightarrow> target option list" where
  "getCollisionTargets boxOf objs ids = concat (map (getCollisionTargets_object boxOf objs) ids)"

section \<open>CollisionManager: the per-projectile checks\<close>

text \<open>
  Calls to the effects and audio collaborators, to the \<open>onCollision\<close> callback of a
  projectile and to \<open>setTimeout\<close> are recorded as events, in the order of the calls.
\<close>

datatype effect =
    DustEffect vec3 real
  | CraterEffect vec3 real
  | ExplosionEffect vec3 real
  | PlaySound string real
  | StoneImpactEffect vec3
  | StoneDebrisEffect vec3
  | MetalImpactEffect vec3
  | SiegeHitEffect vec3

text \<open>\<open>CollisionManager.isValidProjectile(projectile)\<close>.\<close>

definition isValidProjectile :: "projectile option \<Rightarrow> bool" where
  "isValidProjectile projectile =
     (case projectile of
        None \<Rightarrow> False
      | Some p \<Rightarrow> if p_hasCollided p then False
                  else if p_velocity p = None then False
                  else True)"

text \<open>
  The loop over \<open>targets\<close> in \<open>CollisionManager.checkCollisions\<close>, for one projectile:
  the first target that is hit, which is the one handed to \<open>handleTargetCollision\<close>.
\<close>

fun checkCollisions_targets ::
  "objects \<Rightarrow> (nat \<Rightarrow> box3 option) \<Rightarrow> projectile \<Rightarrow> target option list \<Rightarrow> target option" where
  "checkCollisions_targets objs fallbackBox p [] = None"
| "checkCollisions_targets objs fallbackBox p (tgt # rest) =
     (case tgt of
        None \<Rightarrow> checkCollisions_targets objs fallbackBox p rest
      | Some t \<Rightarrow>
         (case t_mesh t of
            None \<Rightarrow> checkCollisions_targets objs fallbackBox p rest
          | Some i \<Rightarrow>
              if m_isDragging (objs i) then checkCollisions_targets objs fallbackBox p rest
              else if checkProjectileTargetCollision objs fallbackBox (Some p) (Some t)
              then Some t
              else checkCollisions_targets objs fallbackBox p rest))"

text \<open>\<open>CollisionManager.deactivateProjectile(projectile)\<close>; the removal from the scene after 100 ms is left to the scene.\<close>

definition deactivateProjectile :: "projectile \<Rightarrow> projectile" where
  "deactivateProjectile p = p\<lparr>p_active := False, p_hasCollided := True\<rparr>"

text \<open>The \<open>collisionData\<close> object passed to \<open>handleGroundCollision\<close>.\<close>

record collisionData =
  cd_velocity :: "vec3 option"
  cd_force :: real
  cd_bounceCount :: nat
  cd_final :: bool

text \<open>\<open>Utils.clamp(value, min, max)\<close>.\<close>

definition clamp :: "real \<Rightarrow> real \<Rightarrow> real \<Rightarrow> real" where
  "clamp v lo hi = max lo (min hi v)"

text \<open>
  \<open>CollisionManager.handleGroundCollision(projectile, position, collisionData)\<close>.
  \<open>hasEffects\<close> tells whether \<open>this.effectsManager\<close> is set. The function is \<open>async\<close>;
  its statements are taken in program order. Result: the calls made and the projectile.
\<close>

definition handleGroundCollision ::
  "bool \<Rightarrow> projectile option \<Rightarrow> vec3 \<Rightarrow> collisionData option \<Rightarrow> effect list \<times> projectile option" where
  "handleGroundCollision hasEffects projectile position cdata =
     (case projectile of
        None \<Rightarrow> ([], projectile)
      | Some p \<Rightarrow>
          if p_hasCollided p then ([], projectile)
          else
            let velocity = (case cdata of
                              None \<Rightarrow> p_velocity p
                            | Some c \<Rightarrow> (case cd_velocity c of Some v \<Rightarrow> Some v | None \<Rightarrow> p_velocity p));
                fallback = (case velocity of Some v \<Rightarrow> vlength v / 10 | None \<Rightarrow> 0);
                impactSpeed = (case cdata of
                                 None \<Rightarrow> fallback
                               | Some c \<Rightarrow> if cd_force c = 0 then fallback else cd_force c);
                isFinalCollision = (case cdata of None \<Rightarrow> False | Some c \<Rightarrow> cd_final c);
                evs =
                  (if impactSpeed > 0.3 \<or> isFinalCollision then
                     let impactForce = min (impactSpeed * 1.5) 2.0;
                         dust =
                           (if hasEffects \<and> impactForce > 0.8 then
                              DustEffect position (impactForce * 0.6) #
                              (if impactForce > 1.2 then
                                 let spreadDistance = impactForce * 0.3
                                 in map (\<lambda>offset.
                                      DustEffect \<lparr>vx = vx position + offset * spreadDistance,
                                                  vy = vy position + 0.2,
                                                  vz = vz position\<rparr> (impactForce * 0.4))
                                      [-1, 1]
                               else [])
                            else []);
                         crater =
                           (if hasEffects \<and> (impactForce > 1.2 \<or> isFinalCollision) then
                              let craterScale = (if isFinalCollision then 1.0 else 0.6);
                                  effectiveForce = (if isFinalCollision then max impactForce 1.5
                                                    else impactForce)
                              in [CraterEffect position (effectiveForce * craterScale)]
                            else []);
                         currentBounceCount = (case cdata of None \<Rightarrow> 0 | Some c \<Rightarrow> cd_bounceCount c);
                         bounceReduction = (0.5::real) ^ currentBounceCount;
                         volumeScale = min (impactForce * 0.3) 0.8 * bounceReduction;
                         sound = (if volumeScale > 0.1
                                  then [PlaySound ''sounds/effects/impact'' (clamp volumeScale 0.1 0.8)]
                                  else [])
                     in dust @ crater @ sound
                   else [])
            in (evs, if isFinalCollision then Some (deactivateProjectile p) else projectile))"

text \<open>
  \<open>CollisionManager.checkGroundCollision(projectile, position)\<close>: whether the ground
  check triggered, with the calls made and the projectile. It is called on valid
  projectiles only, whose velocity is set; without a velocity the read of
  \<open>velocity?.length()\<close> gives \<open>undefined\<close>, and \<open>|| 0\<close> makes the force \<open>0\<close>.
\<close>

definition checkGroundCollision ::
  "bool \<Rightarrow> projectile \<Rightarrow> vec3 \<Rightarrow> bool \<times> effect list \<times> projectile option" where
  "checkGroundCollision hasEffects p position =
     (let projectileRadius = orElse (p_radius p) 0.3;
          groundThreshold = max (projectileRadius * 1.5) 0.5
      in if vy position \<le> groundThreshold then
           let bounceCount = orElseNat (p_bounces p) 0;
               isFinalBounce = (bounceCount \<ge> 3);
               r = handleGroundCollision hasEffects (Some p) position
                     (Some \<lparr>cd_velocity = p_velocity p,
                            cd_force = (case p_velocity p of Some v \<Rightarrow> vlength v | None \<Rightarrow> 0),
                            cd_bounceCount = bounceCount,
                            cd_final = isFinalBounce\<rparr>)
           in (True, r)
         else (False, [], Some p))"

section \<open>PhysicsEngine: the projectile integrator\<close>

text \<open>The argument of the \<open>onCollision("ground", ...)\<close> callback.\<close>

record groundHit =
  gh_position :: vec3
  gh_velocity :: vec3
  gh_force :: real
  gh_final :: bool

text \<open>
  The body of \<open>scene.traverse\<close> in \<open>PhysicsEngine.update(deltaTime)\<close> for one projectile
  object, \<open>deltaTime\<close> already clamped: the projectile after the step and the callbacks
  fired. \<open>None\<close> is the \<open>TypeError\<close> of \<open>velocity.y\<close> on a projectile without
  velocity.
\<close>

definition updateProjectile :: "real \<Rightarrow> projectile \<Rightarrow> (projectile \<times> groundHit list) option" where
  "updateProjectile deltaTime p =
     (if p_active p \<and> \<not> p_hasCollided p then
        (case p_velocity p of
           None \<Rightarrow> None
         | Some v0 \<Rightarrow>
             let v1 = v0\<lparr>vy := vy v0 + p_gravity p * deltaTime\<rparr>;
                 pos1 = \<lparr>vx = vx (p_position p) + vx v1 * deltaTime,
                         vy = vy (p_position p) + vy v1 * deltaTime,
                         vz = vz (p_position p) + vz v1 * deltaTime\<rparr>;
                 groundHeight = 0.3
             in if vy pos1 \<le> groundHeight then
                  let pos2 = pos1\<lparr>vy := groundHeight\<rparr>;
                      speed = vlength v1;
                      maxBounces = orElseNat (p_maxBounces p) 3
                  in if speed > 1.0 \<and>
                        (case p_bounces p of None \<Rightarrow> True | Some b \<Rightarrow> b = 0 \<or> b < maxBounces) then
                       let v2 = \<lparr>vx = vx v1 * 0.7, vy = \<bar>vy v1\<bar> * 0.5, vz = vz v1 * 0.7\<rparr>;
                           p' = p\<lparr>p_position := pos2, p_velocity := Some v2,
                                  p_bounces := Some (orElseNat (p_bounces p) 0 + 1)\<rparr>
                       in Some (p', if p_onCollision p
                                    then [\<lparr>gh_position = pos2, gh_velocity = v2,
                                           gh_force = speed / 10, gh_final = False\<rparr>]
                                    else [])
                     else
                       let v2 = \<lparr>vx = 0, vy = 0, vz = 0\<rparr>;
                           p' = p\<lparr>p_position := pos2, p_velocity := Some v2,
                                  p_active := False, p_hasCollided := True\<rparr>
                       in Some (p', if p_onCollision p
                                    then [\<lparr>gh_position = pos2, gh_velocity = v2,
                                           gh_force = speed / 10, gh_final = True\<rparr>]
                                    else [])
                else Some (p\<lparr>p_position := pos1, p_velocity := Some v1\<rparr>, []))
      else Some (p, []))"

text \<open>
  \<open>PhysicsEngine.update(deltaTime)\<close> on one projectile: the clamp of \<open>deltaTime\<close>, then
  the step. (The pool of other physics objects is a separate loop and is not modelled.)
\<close>

definition update :: "real \<Rightarrow> projectile \<Rightarrow> (projectile \<times> groundHit list) option" where
  "update deltaTime p = updateProjectile (min deltaTime (1 / 30)) p"

text \<open>Successive ticks on one projectile, with all callbacks fired, in order.\<close>

fun updates :: "real list \<Rightarrow> projectile \<Rightarrow> (projectile \<times> groundHit list) option" where
  "updates [] p = Some (p, [])"
| "updates (dt # dts) p =
     (case update dt p of
        None \<Rightarrow> None
      | Some (p1, hs1) \<Rightarrow>
         (case updates dts p1 of
            None \<Rightarrow> None
          | Some (p2, hs2) \<Rightarrow> Some (p2, hs1 @ hs2)))"

section \<open>CollisionManager: barrels and the chain reaction\<close>

text \<open>
  The state that the explosion code works on: the objects, \<open>scene.children\<close> in order,
  the pending \<open>setTimeout\<close> detonations (delay in ms and the barrel to trigger), the
  calls made to the effects and audio collaborators, the wrappers handed to
  \<open>destroyTarget\<close>, and \<open>Math.random()\<close> as the sequence of its successive values with
  the number of values drawn so far. \<open>w_hasEffects\<close> tells whether
  \<open>this.effectsManager\<close> is set.
\<close>

record world =
  w_objects :: objects
  w_children :: "nat list"
  w_timers :: "(real \<times> nat) list"
  w_calls :: "effect list"
  w_destroyed :: "target option list"
  w_random :: "nat \<Rightarrow> real"
  w_drawn :: nat
  w_hasEffects :: bool

text \<open>\<open>Object3D.remove(object)\<close> of three.js on the scene: only a direct child is removed.\<close>

definition sceneRemove :: "world \<Rightarrow> nat \<Rightarrow> world" where
  "sceneRemove w i =
     (if i \<in> set (w_children w)
      then w\<lparr>w_objects := (w_objects w)(i := (w_objects w i)\<lparr>m_parent := Detached\<rparr>),
             w_children := remove1 i (w_children w)\<rparr>
      else w)"

text \<open>
  The body of \<open>this.scene.children.forEach\<close> in \<open>handleChainReaction\<close>, for one child:
  the check of the flag, the write of the flag, the draw of the delay and the
  \<open>setTimeout\<close>.
\<close>

definition chainReactionRadius :: real where
  "chainReactionRadius = 8"

definition handleChainReaction_child :: "nat \<Rightarrow> vec3 \<Rightarrow> world \<Rightarrow> nat \<Rightarrow> world" where
  "handleChainReaction_child barrelMesh position w child =
     (let c = w_objects w child
      in if m_type c = Some ''barrel'' \<and> child \<noteq> barrelMesh \<and> \<not> m_isExploding c
            \<and> m_parent c = InScene then
           let distance = distanceTo position (m_position c)
           in if distance < chainReactionRadius then
                let delay = 100 + w_random w (w_drawn w) * 200
                in w\<lparr>w_objects := (w_objects w)(child := c\<lparr>m_isExploding := True\<rparr>),
                     w_timers := w_timers w @ [(delay, child)],
                     w_drawn := w_drawn w + 1\<rparr>
              else w
         else w)"

text \<open>
  \<open>CollisionManager.handleChainReaction(barrel, position)\<close>, for a wrapper whose mesh
  is \<open>barrelMesh\<close>: sound and dust, the scan of \<open>scene.children\<close>, then the area-damage
  pass. \<open>targets\<close> is the list that \<open>getCollisionTargets(this.scene)\<close> returns at that
  point. The function is \<open>async\<close>; its statements are taken in program order.
\<close>

definition handleChainReaction :: "target option list \<Rightarrow> nat \<Rightarrow> vec3 \<Rightarrow> world \<Rightarrow> world" where
  "handleChainReaction targets barrelMesh position w =
     (let w1 = w\<lparr>w_calls := w_calls w @ [PlaySound ''sounds/effects/chain_reaction'' 0.8]\<rparr>;
          w2 = (if w_hasEffects w1
                then w1\<lparr>w_calls := w_calls w1 @
                        DustEffect position 2.0 #
                        map (\<lambda>offset. DustEffect \<lparr>vx = vx position + offset * 2,
                                                  vy = vy position + 0.2,
                                                  vz = vz position\<rparr> 1.5) [-1, 1]\<rparr>
                else w1);
          w3 = foldl (handleChainReaction_child barrelMesh position) w2 (w_children w2);
          (objs, damagedTargets) = explosionDamage position chainReactionRadius 150 targets (w_objects w3)
      in w3\<lparr>w_objects := objs,
            w_destroyed := w_destroyed w3 @ map fst (filter snd damagedTargets)\<rparr>)"

text \<open>
  \<open>CollisionManager.triggerBarrelExplosion(barrel, position)\<close>. The second look-up
  (\<open>scene.children.find\<close>) finds the same object or nothing.
\<close>

definition triggerBarrelExplosion :: "target option list \<Rightarrow> target \<Rightarrow> vec3 \<Rightarrow> world \<Rightarrow> world" where
  "triggerBarrelExplosion targets barrel position w =
     (case t_mesh barrel of
        None \<Rightarrow> w
      | Some i \<Rightarrow>
          if m_parent (w_objects w i) = Detached \<or> m_isDragging (w_objects w i) then w
          else if i \<in> set (w_children w) \<and> m_isDragging (w_objects w i) then w
          else
            let w1 = w\<lparr>w_objects := (w_objects w)
                         (i := (w_objects w i)\<lparr>m_isExploding := True, m_explosive := True\<rparr>)\<rparr>;
                w2 = handleChainReaction targets i position w1;
                w3 = (if w_hasEffects w2
                      then w2\<lparr>w_calls := w_calls w2 @ [ExplosionEffect position 3.0]\<rparr>
                      else w2);
                w4 = w3\<lparr>w_calls := w_calls w3 @ [PlaySound ''sounds/effects/explosion'' 1.0]\<rparr>
            in sceneRemove w4 i)"

text \<open>
  \<open>CollisionManager.handleImpactEffects(target, impactPoint, impactForce)\<close>, the step of a
  direct hit that follows \<open>applyDamage\<close>. \<open>None\<close> is the \<open>TypeError\<close> of
  \<open>target.mesh.position\<close> on a barrel wrapper without mesh.
\<close>

definition handleImpactEffects ::
  "target option list \<Rightarrow> target \<Rightarrow> vec3 \<Rightarrow> real \<Rightarrow> world \<Rightarrow> world option" where
  "handleImpactEffects targets tgt impactPoint impactForce w =
     (if t_type tgt = ''barrel'' then
        (case t_mesh tgt of
           None \<Rightarrow> None
         | Some i \<Rightarrow>
             Some (triggerBarrelExplosion targets
                     \<lparr>t_mesh = t_mesh tgt, t_type = ''barrel'', t_position = None,
                      t_boundingBox = None\<rparr>
                     (m_position (w_objects w i)) w))
      else if t_type tgt = ''wall'' \<or> t_type tgt = ''tower'' then
        Some (w\<lparr>w_calls := w_calls w @ StoneImpactEffect impactPoint #
                 (if w_hasEffects w
                  then DustEffect impactPoint (impactForce * 0.7) #
                       (if impactForce > 1.5 then [StoneDebrisEffect impactPoint] else [])
                  else [])\<rparr>)
      else if t_type tgt = ''siegeTower'' then
        Some (w\<lparr>w_calls := w_calls w @ MetalImpactEffect impactPoint #
                 (if w_hasEffects w then [SiegeHitEffect impactPoint] else [])\<rparr>)
      else Some w)"

text \<open>
  \<open>CollisionManager.handleBarrelImpact(target, impactPoint)\<close>: the guarded variant. No
  function of the repository calls it.
\<close>

definition handleBarrelImpact :: "target option list \<Rightarrow> target \<Rightarrow> vec3 \<Rightarrow> world \<Rightarrow> world" where
  "handleBarrelImpact targets tgt impactPoint w =
     (case t_mesh tgt of
        None \<Rightarrow> w
      | Some i \<Rightarrow>
          if \<not> m_isExploding (w_objects w i)
          then triggerBarrelExplosion targets tgt (m_position (w_objects w i)) w
          else w)"

text \<open>
  The callback given to \<open>setTimeout\<close> by the scan, run when the delay of \<open>child\<close> has
  passed.
\<close>

definition chainReaction_timeout :: "target option list \<Rightarrow> nat \<Rightarrow> world \<Rightarrow> world" where
  "chainReaction_timeout targets child w =
     (if m_parent (w_objects w child) = InScene
      then triggerBarrelExplosion targets
             \<lparr>t_mesh = Some child, t_type = ''barrel'', t_position = None, t_boundingBox = None\<rparr>
             (m_position (w_objects w child)) w
      else w)"

section \<open>Reading the results\<close>

text \<open>Which of the recorded calls are dust effects, and which are craters.\<close>

fun isDustEffect :: "effect \<Rightarrow> bool" where
  "isDustEffect (DustEffect pos s) = True"
| "isDustEffect e = False"

fun isCraterEffect :: "effect \<Rightarrow> bool" where
  "isCraterEffect (CraterEffect pos s) = True"
| "isCraterEffect e = False"

text \<open>
  The value that \<open>handleGroundCollision\<close> binds to \<open>impactSpeed\<close>:
  \<open>collisionData.force || (velocity ? velocity.length() / 10 : 0)\<close>.
\<close>

definition impactSpeedOf :: "projectile \<Rightarrow> collisionData \<Rightarrow> real" where
  "impactSpeedOf p c =
     (if cd_force c = 0
      then (case (case cd_velocity c of Some v \<Rightarrow> Some v | None \<Rightarrow> p_velocity p) of
              Some v \<Rightarrow> vlength v / 10 | None \<Rightarrow> 0)
      else cd_force c)"

text \<open>
  The states that a ground contact of the integrator leads to, for a projectile \<open>p\<close>
  stepped by \<open>dt\<close> whose velocity after gravity is \<open>v1\<close>: the position clamped to the
  ground height, the projectile after a bounce, the projectile after the terminal stop,
  and the callback fired if one is registered.
\<close>

definition landed :: "real \<Rightarrow> projectile \<Rightarrow> vec3 \<Rightarrow> vec3" where
  "landed dt p v1 = \<lparr>vx = vx (p_position p) + vx v1 * dt, vy = 0.3, vz = vz (p_position p) + vz v1 * dt\<rparr>"

definition bounced :: "real \<Rightarrow> projectile \<Rightarrow> vec3 \<Rightarrow> projectile" where
  "bounced dt p v1 =
     p\<lparr>p_position := landed dt p v1,
       p_velocity := Some \<lparr>vx = vx v1 * 0.7, vy = \<bar>vy v1\<bar> * 0.5, vz = vz v1 * 0.7\<rparr>,
       p_bounces := Some (orElseNat (p_bounces p) 0 + 1)\<rparr>"

definition stopped :: "real \<Rightarrow> projectile \<Rightarrow> vec3 \<Rightarrow> projectile" where
  "stopped dt p v1 =
     p\<lparr>p_position := landed dt p v1,
       p_velocity := Some \<lparr>vx = 0, vy = 0, vz = 0\<rparr>,
       p_active := False, p_hasCollided := True\<rparr>"

definition groundCallback :: "projectile \<Rightarrow> vec3 \<Rightarrow> vec3 \<Rightarrow> real \<Rightarrow> bool \<Rightarrow> groundHit list" where
  "groundCallback p pos v speed final =
     (if p_onCollision p
      then [\<lparr>gh_position = pos, gh_velocity = v, gh_force = speed / 10, gh_final = final\<rparr>]
      else [])"

text \<open>
  For the area damage: whether an entry of \<open>targets\<close> is a non-ground wrapper of object
  \<open>i\<close>; the health that the damage is subtracted from (the base value of the type when
  \<open>health\<close> is not set) and the value of \<open>maxHealth\<close> after the lazy initialisation.
\<close>

definition touches :: "nat \<Rightarrow> target option \<Rightarrow> bool" where
  "touches i tw = (case tw of None \<Rightarrow> False | Some t \<Rightarrow> t_mesh t = Some i \<and> t_type t \<noteq> ''ground'')"

definition healthOrBase :: "string \<Rightarrow> mesh \<Rightarrow> real" where
  "healthOrBase ty m = (case m_health m of None \<Rightarrow> getBaseHealthForExplosion ty | Some h \<Rightarrow> h)"

definition maxHealthOrBase :: "string \<Rightarrow> mesh \<Rightarrow> real" where
  "maxHealthOrBase ty m =
     (case m_health m of
        None \<Rightarrow> getBaseHealthForExplosion ty
      | Some h \<Rightarrow> (case m_maxHealth m of None \<Rightarrow> max h (getBaseHealthForExplosion ty) | Some mh \<Rightarrow> mh))"


section \<open>Concrete scenes used in the evaluations\<close>

definition origin3 :: vec3 where
  "origin3 = \<lparr>vx = 0, vy = 0, vz = 0\<rparr>"

definition ex_wall :: mesh where
  "ex_wall = \<lparr>m_name = [], m_isProjectile = False, m_type = Some ''wall'', m_position = \<lparr>vx = 3, vy = 0, vz = 0\<rparr>, m_parent = InGroup,
              m_health = Some 200, m_maxHealth = Some 200, m_isDragging = False,
              m_isExploding = False, m_explosive = False\<rparr>"

definition ex_wallTarget :: target where
  "ex_wallTarget = \<lparr>t_mesh = Some 0, t_type = ''wall'', t_position = None, t_boundingBox = None\<rparr>"

text \<open>A store in which every object is the given one.\<close>

definition allObjects :: "mesh \<Rightarrow> objects" where
  "allObjects m = (\<lambda>_. m)"

text \<open>Reading the result of \<open>applyDamage\<close>: the health of object \<open>i\<close> afterwards, and the value returned.\<close>

definition healthAfter :: "(objects \<times> real) option \<Rightarrow> nat \<Rightarrow> real option" where
  "healthAfter r i = (case r of None \<Rightarrow> None | Some (objs, actual) \<Rightarrow> m_health (objs i))"

definition returned :: "(objects \<times> real) option \<Rightarrow> real option" where
  "returned r = map_option snd r"

definition ex_projectile :: projectile where
  "ex_projectile = \<lparr>p_position = \<lparr>vx = 1.3, vy = 0.5, vz = 0.5\<rparr>,
                    p_velocity = Some \<lparr>vx = 3, vy = 4, vz = 0\<rparr>,
                    p_radius = Some 0.4, p_gravity = - 9.81, p_bounces = Some 0,
                    p_maxBounces = Some 3, p_active = True, p_hasCollided = False,
                    p_onCollision = False\<rparr>"

definition ex_boxedWall :: target where
  "ex_boxedWall = \<lparr>t_mesh = Some 0, t_type = ''wall'', t_position = None,
                   t_boundingBox = Some \<lparr>bmin = \<lparr>vx = 0, vy = 0, vz = 0\<rparr>,
                                         bmax = \<lparr>vx = 1, vy = 1, vz = 1\<rparr>\<rparr>\<rparr>"

definition noBox :: "nat \<Rightarrow> box3 option" where
  "noBox i = None"




definition ex_resting :: projectile where
  "ex_resting = \<lparr>p_position = \<lparr>vx = 5, vy = 0.3, vz = 5\<rparr>,
                 p_velocity = Some \<lparr>vx = 0, vy = - 0.2, vz = 0\<rparr>,
                 p_radius = Some 0.4, p_gravity = - 9.81, p_bounces = Some 3,
                 p_maxBounces = Some 3, p_active = True, p_hasCollided = False,
                 p_onCollision = False\<rparr>"

definition ex_landing :: projectile where
  "ex_landing = \<lparr>p_position = \<lparr>vx = 5, vy = 0.3, vz = 5\<rparr>,
                 p_velocity = Some \<lparr>vx = 3, vy = - 4, vz = 0\<rparr>,
                 p_radius = Some 0.4, p_gravity = - 9.81, p_bounces = Some 0,
                 p_maxBounces = Some 3, p_active = True, p_hasCollided = False,
                 p_onCollision = False\<rparr>"

definition ex_finalData :: collisionData where
  "ex_finalData = \<lparr>cd_velocity = p_velocity ex_resting, cd_force = 0.2, cd_bounceCount = 3,
                   cd_final = True\<rparr>"

definition ex_landing_v1 :: vec3 where
  "ex_landing_v1 = \<lparr>vx = 3, vy = - 4 + - 9.81 * (1 / 30), vz = 0\<rparr>"

definition ex_resting_v1 :: vec3 where
  "ex_resting_v1 = \<lparr>vx = 0, vy = - 0.2 + - 9.81 * (1 / 30), vz = 0\<rparr>"

definition ex_barrel :: mesh where
  "ex_barrel = \<lparr>m_name = [], m_isProjectile = False, m_type = Some ''barrel'', m_position = \<lparr>vx = 3, vy = 0, vz = 0\<rparr>, m_parent = InScene,
              m_health = Some 100, m_maxHealth = Some 100, m_isDragging = False,
              m_isExploding = False, m_explosive = False\<rparr>"

definition ex_barrelTarget :: target where
  "ex_barrelTarget = \<lparr>t_mesh = Some 0, t_type = ''barrel'', t_position = None, t_boundingBox = None\<rparr>"


definition ex_draggedWall :: mesh where
  "ex_draggedWall = ex_wall\<lparr>m_isDragging := True\<rparr>"

definition ex_overlapping :: projectile where
  "ex_overlapping = ex_projectile\<lparr>p_position := \<lparr>vx = 0.5, vy = 0.5, vz = 0.5\<rparr>\<rparr>"

definition ex_barrelA :: mesh where
  "ex_barrelA = \<lparr>m_name = [], m_isProjectile = False, m_type = Some ''barrel'', m_position = \<lparr>vx = 0, vy = 0, vz = 0\<rparr>,
                 m_parent = InScene, m_health = None, m_maxHealth = None, m_isDragging = False,
                 m_isExploding = True, m_explosive = False\<rparr>"

definition ex_barrelB :: mesh where
  "ex_barrelB = \<lparr>m_name = [], m_isProjectile = False, m_type = Some ''barrel'', m_position = \<lparr>vx = 3, vy = 0, vz = 0\<rparr>,
                 m_parent = InScene, m_health = None, m_maxHealth = None, m_isDragging = False,
                 m_isExploding = False, m_explosive = False\<rparr>"

definition ex_half :: "nat \<Rightarrow> real" where
  "ex_half n = 1 / 2"

definition ex_world :: world where
  "ex_world = \<lparr>w_objects = (allObjects ex_barrelB)(2 := ex_barrelA), w_children = [2, 3],
               w_timers = [(150, 2)], w_calls = [], w_destroyed = [], w_random = ex_half,
               w_drawn = 0, w_hasEffects = True\<rparr>"

definition ex_hitBarrel :: target where
  "ex_hitBarrel = \<lparr>t_mesh = Some 2, t_type = ''barrel'', t_position = None, t_boundingBox = None\<rparr>"

section \<open>Verified properties\<close>

subsection \<open>Direct damage\<close>

lemma getTargetResistance_table:
  "getTargetResistance t =
     (if t_type t = ''wall'' then 0.3 else if t_type t = ''tower'' then 0.4
      else if t_type t = ''siegeTower'' then 0.2 else 0)"
  by (simp add: getTargetResistance_def resistances_def)

lemma getTargetResistance_range: "0 \<le> getTargetResistance t \<and> getTargetResistance t \<le> 1"
  by (simp add: getTargetResistance_table)

text \<open>
  Where the lazy initialisation does not fire, \<open>applyDamage\<close> does what is asked of it.
  For a target whose \<open>health\<close> is set and not zero it returns
  \<open>damage \<times> (1 - resistance)\<close> and leaves the health at
  \<open>max(0, health_before - damage \<times> (1 - resistance))\<close>, every other field and every other
  object untouched; the resistance is the one of the table (wall 0.3, tower 0.4,
  siegeTower 0.2, barrel and every other type 0) and lies in \<open>[0, 1]\<close>; the returned
  value is non-negative when the damage is.
\<close>

lemma applyDamage_nonzero_health:
  assumes "t_mesh t = Some i" and "m_health (objs i) = Some h" and "h \<noteq> 0"
  shows "applyDamage objs t damage =
           Some (objs(i := (objs i)\<lparr>m_health :=
                                      Some (max 0 (h - damage * (1 - getTargetResistance t)))\<rparr>),
                 damage * (1 - getTargetResistance t))
         \<and> getTargetResistance t =
             (if t_type t = ''wall'' then 0.3 else if t_type t = ''tower'' then 0.4
              else if t_type t = ''siegeTower'' then 0.2 else 0)
         \<and> 0 \<le> getTargetResistance t \<and> getTargetResistance t \<le> 1
         \<and> (0 \<le> damage \<longrightarrow> 0 \<le> damage * (1 - getTargetResistance t))"
proof -
  have r: "0 \<le> getTargetResistance t \<and> getTargetResistance t \<le> 1"
    by (rule getTargetResistance_range)
  have "applyDamage objs t damage =
           Some (objs(i := (objs i)\<lparr>m_health :=
                                      Some (max 0 (h - damage * (1 - getTargetResistance t)))\<rparr>),
                 damage * (1 - getTargetResistance t))"
    using assms by (simp add: applyDamage_def truthy_def Let_def)
  moreover have "0 \<le> damage \<longrightarrow> 0 \<le> damage * (1 - getTargetResistance t)"
    using r by simp
  ultimately show ?thesis
    using r getTargetResistance_table[of t] by blast
qed

lemma applyDamage_nonzero_health_example:
  "applyDamage (allObjects ex_wall) ex_wallTarget 50 =
     Some ((allObjects ex_wall)(0 := ex_wall\<lparr>m_health := Some 165\<rparr>), 35)"
proof -
  have a: "t_mesh ex_wallTarget = Some 0"
    by (simp add: ex_wallTarget_def)
  have b: "m_health (allObjects ex_wall 0) = Some 200"
    by (simp add: ex_wall_def allObjects_def)
  have c: "(200::real) \<noteq> 0"
    by simp
  have r: "getTargetResistance ex_wallTarget = 0.3"
    by (simp add: getTargetResistance_table ex_wallTarget_def)
  show ?thesis
    using applyDamage_nonzero_health[of ex_wallTarget 0 "allObjects ex_wall" 200 50, OF a b c]
    by (simp add: r allObjects_def)
qed

text \<open>
  C1 does not hold on a target whose health has reached \<open>0\<close>. The health of such a target
  is set, and a hit of damage \<open>10\<close> on a wall (resistance \<open>0.3\<close>) should leave it at
  \<open>max(0, 0 - 10 \<times> 0.7) = 0\<close>. But \<open>applyDamage\<close> tests \<open>!health\<close>, which is true of
  \<open>0\<close>: it first resets the health to the base value \<open>200\<close>, and the wall ends with
  health \<open>193\<close>. The returned value \<open>7\<close> is the one stated.
\<close>

theorem applyDamage_resets_depleted_health:
  "m_health (allObjects (ex_wall\<lparr>m_health := Some 0\<rparr>) 0) = Some 0
   \<and> healthAfter (applyDamage (allObjects (ex_wall\<lparr>m_health := Some 0\<rparr>)) ex_wallTarget 10) 0
       = Some 193
   \<and> returned (applyDamage (allObjects (ex_wall\<lparr>m_health := Some 0\<rparr>)) ex_wallTarget 10) = Some 7
   \<and> getTargetResistance ex_wallTarget = 0.3
   \<and> max 0 (0 - 10 * (1 - 0.3)) = (0::real)"
  by (simp add: applyDamage_def healthAfter_def returned_def allObjects_def ex_wall_def
        ex_wallTarget_def truthy_def initializeTargetHealth_def getBaseHealth_def
        getTargetResistance_table Let_def)

text \<open>
  C10. When the health of the target is \<open>0\<close> (or missing: any falsy value) at the call,
  \<open>applyDamage\<close> first sets \<open>health\<close> and \<open>maxHealth\<close> to the base value of the type
  and then subtracts the resistance-adjusted damage: the health afterwards is
  \<open>max(0, base - damage \<times> (1 - resistance))\<close>, which is positive whenever the adjusted
  damage is below the base value, so the depleted target does not stay at \<open>0\<close>.
\<close>

theorem applyDamage_zero_health_reinitializes:
  assumes "t_mesh t = Some i" and "m_health (objs i) = Some 0 \<or> m_health (objs i) = None"
  shows "applyDamage objs t damage =
           Some (objs(i := (objs i)\<lparr>m_health :=
                                      Some (max 0 (getBaseHealth (t_type t)
                                                   - damage * (1 - getTargetResistance t))),
                                    m_maxHealth := Some (getBaseHealth (t_type t))\<rparr>),
                 damage * (1 - getTargetResistance t))
         \<and> (damage * (1 - getTargetResistance t) < getBaseHealth (t_type t) \<longrightarrow>
              0 < max 0 (getBaseHealth (t_type t) - damage * (1 - getTargetResistance t)))"
  using assms by (auto simp add: applyDamage_def truthy_def Let_def initializeTargetHealth_def)

theorem applyDamage_zero_health_reinitializes_witness:
  "applyDamage (allObjects (ex_wall\<lparr>m_health := Some 0\<rparr>)) ex_wallTarget 10 =
     Some ((allObjects (ex_wall\<lparr>m_health := Some 0\<rparr>))(0 := ex_wall\<lparr>m_health := Some 193\<rparr>), 7)
   \<and> (0::real) < max 0 (200 - 10 * (1 - 0.3))"
proof -
  have a: "t_mesh ex_wallTarget = Some 0"
    by (simp add: ex_wallTarget_def)
  have b: "m_health (allObjects (ex_wall\<lparr>m_health := Some 0\<rparr>) 0) = Some 0
           \<or> m_health (allObjects (ex_wall\<lparr>m_health := Some 0\<rparr>) 0) = None"
    by (simp add: allObjects_def)
  have r: "getTargetResistance ex_wallTarget = 0.3"
    by (simp add: getTargetResistance_table ex_wallTarget_def)
  have h: "getBaseHealth (t_type ex_wallTarget) = 200"
    by (simp add: getBaseHealth_def ex_wallTarget_def)
  show ?thesis
    using applyDamage_zero_health_reinitializes
            [of ex_wallTarget 0 "allObjects (ex_wall\<lparr>m_health := Some 0\<rparr>)" 10, OF a b]
    by (simp add: r h allObjects_def ex_wall_def)
qed

subsection \<open>The base-health tables\<close>

text \<open>
  C7, as amended. The table used for lazy initialisation during explosion damage gives
  wall, tower and siegeTower 200, barrel 50, and every other type 100; the direct-hit
  table gives wall, tower and siegeTower 200, barrel 100, and every other type 300. The
  two tables agree on wall, tower and siegeTower only.
\<close>

theorem getBaseHealthForExplosion_table:
  "getBaseHealthForExplosion ty =
     (if ty = ''wall'' \<or> ty = ''tower'' \<or> ty = ''siegeTower'' then 200
      else if ty = ''barrel'' then 50 else 100)
   \<and> getBaseHealth ty =
     (if ty = ''wall'' \<or> ty = ''tower'' \<or> ty = ''siegeTower'' then 200
      else if ty = ''barrel'' then 100 else 300)
   \<and> (getBaseHealthForExplosion ty = getBaseHealth ty)
       = (ty = ''wall'' \<or> ty = ''tower'' \<or> ty = ''siegeTower'')"
  by (simp add: getBaseHealthForExplosion_def getBaseHealth_def)

text \<open>
  C7 as stated fails on the default: a stone gets 100 from the explosion table, not the
  300 of the direct-hit table.
\<close>

theorem getBaseHealthForExplosion_counterexample:
  "getBaseHealthForExplosion ''stone'' = 100 \<and> getBaseHealth ''stone'' = 300"
  by (simp add: getBaseHealthForExplosion_def getBaseHealth_def)


subsection \<open>The velocity-scaled radius\<close>

lemma sqrt_25: "sqrt 25 = 5"
  by (rule real_sqrt_unique) simp_all

lemma sqrt_9: "sqrt 9 = 3"
  by (rule real_sqrt_unique) simp_all

lemma sqrt_9_100: "sqrt (9 / 100) = 3 / 10"
  by (rule real_sqrt_unique) (simp_all add: power2_eq_square)

lemma velocityScale_ex_projectile: "velocityScale (p_velocity ex_projectile) = 0.5"
  by (simp add: velocityScale_def ex_projectile_def vlength_def sqrt_25)

text \<open>
  C4, as amended. Against a wall or a tower, the sphere-vs-box test of a projectile with
  base radius \<open>r\<close> (\<open>0.3\<close> when the radius is missing or zero) and velocity \<open>v\<close> uses the
  radius \<open>r \<times> min(0.1 \<times> |v|, 1.5)\<close>. That radius is at most \<open>1.5 r\<close>, and for
  \<open>r > 0\<close> it is at least \<open>r\<close> exactly when \<open>|v| \<ge> 10\<close>: a slower projectile is
  tested with a smaller sphere than its own.
\<close>

theorem checkProjectileTargetCollision_box_radius:
  assumes "t_mesh t = Some i" and "t_type t = ''wall'' \<or> t_type t = ''tower''"
    and "p_velocity p = Some v"
  shows "checkProjectileTargetCollision objs fallbackBox (Some p) (Some t) =
           checkSphereBoxCollision (Some (p_position p))
             (orElse (p_radius p) 0.3 * min (vlength v * 0.1) 1.5)
             (case t_boundingBox t of Some b \<Rightarrow> Some b | None \<Rightarrow> fallbackBox i)
         \<and> (0 \<le> orElse (p_radius p) 0.3 \<longrightarrow>
               orElse (p_radius p) 0.3 * min (vlength v * 0.1) 1.5 \<le> 1.5 * orElse (p_radius p) 0.3)
         \<and> (0 < orElse (p_radius p) 0.3 \<longrightarrow>
               (orElse (p_radius p) 0.3 \<le> orElse (p_radius p) 0.3 * min (vlength v * 0.1) 1.5)
                 = (10 \<le> vlength v))"
proof -
  define r where "r = orElse (p_radius p) 0.3"
  define s where "s = min (vlength v * 0.1) 1.5"
  have 1: "checkProjectileTargetCollision objs fallbackBox (Some p) (Some t) =
           checkSphereBoxCollision (Some (p_position p)) (r * s)
             (case t_boundingBox t of Some b \<Rightarrow> Some b | None \<Rightarrow> fallbackBox i)"
    using assms(1,3) assms(2)
    by (simp add: checkProjectileTargetCollision_def velocityScale_def Let_def r_def s_def)
  have s15: "s \<le> 1.5" by (simp add: s_def)
  have 2: "0 \<le> r \<longrightarrow> r * s \<le> 1.5 * r"
  proof
    assume "0 \<le> r"
    then have "r * s \<le> r * 1.5" using s15 by (rule mult_left_mono[rotated])
    then show "r * s \<le> 1.5 * r" by (simp add: mult.commute)
  qed
  have s1: "(1 \<le> s) = (10 \<le> vlength v)" by (simp add: s_def)
  have 3: "0 < r \<longrightarrow> (r \<le> r * s) = (10 \<le> vlength v)"
  proof
    assume p: "0 < r"
    have "(r \<le> r * s) = (r * 1 \<le> r * s)" by simp
    also have "\<dots> = (1 \<le> s)" using p by (simp only: mult_le_cancel_left_pos)
    finally show "(r \<le> r * s) = (10 \<le> vlength v)" using s1 by simp
  qed
  from 1 2 3 show ?thesis unfolding r_def s_def by blast
qed

theorem checkProjectileTargetCollision_box_radius_witness:
  "checkProjectileTargetCollision (allObjects ex_wall) noBox (Some ex_projectile) (Some ex_boxedWall) =
     checkSphereBoxCollision (Some (p_position ex_projectile)) (0.4 * 0.5) (t_boundingBox ex_boxedWall)
   \<and> (0.4::real) * 0.5 \<le> 1.5 * 0.4
   \<and> ((0.4::real) \<le> 0.4 * 0.5) = ((10::real) \<le> 5)"
proof -
  have a: "t_mesh ex_boxedWall = Some 0"
    by (simp add: ex_boxedWall_def)
  have b: "t_type ex_boxedWall = ''wall'' \<or> t_type ex_boxedWall = ''tower''"
    by (simp add: ex_boxedWall_def)
  have c: "p_velocity ex_projectile = Some \<lparr>vx = 3, vy = 4, vz = 0\<rparr>"
    by (simp add: ex_projectile_def)
  have l: "vlength \<lparr>vx = 3, vy = 4, vz = 0\<rparr> = 5"
    by (simp add: vlength_def sqrt_25)
  have r: "orElse (p_radius ex_projectile) 0.3 = 0.4"
    by (simp add: orElse_def ex_projectile_def)
  have bb: "t_boundingBox ex_boxedWall \<noteq> None"
    by (simp add: ex_boxedWall_def)
  show ?thesis
    using checkProjectileTargetCollision_box_radius
            [of ex_boxedWall 0 ex_projectile "\<lparr>vx = 3, vy = 4, vz = 0\<rparr>" "allObjects ex_wall" noBox,
             OF a b c] bb
    by (auto simp add: l r)
qed

text \<open>
  C4 as stated fails for a projectile of radius \<open>0.4\<close> and velocity \<open>(3, 4, 0)\<close>, of
  length \<open>5\<close>: the code tests the sphere of radius \<open>0.4 \<times> 0.5 = 0.2\<close>, smaller than
  the base radius, where the stated factor is \<open>clamp(1 + 0.1 \<times> 5, 1, 1.5) = 1.5\<close>. At
  distance \<open>0.3\<close> from a wall's box the code reports no collision; with the stated
  radius \<open>0.6\<close> the test succeeds.
\<close>

theorem checkProjectileTargetCollision_counterexample:
  "vlength \<lparr>vx = 3, vy = 4, vz = 0\<rparr> = 5
   \<and> velocityScale (p_velocity ex_projectile) = 0.5
   \<and> clamp (1 + 0.1 * 5) 1 1.5 = 1.5
   \<and> orElse (p_radius ex_projectile) 0.3 * velocityScale (p_velocity ex_projectile)
        < orElse (p_radius ex_projectile) 0.3
   \<and> \<not> checkProjectileTargetCollision (allObjects ex_wall) noBox (Some ex_projectile) (Some ex_boxedWall)
   \<and> checkSphereBoxCollision (Some (p_position ex_projectile)) (0.4 * clamp (1 + 0.1 * 5) 1 1.5)
        (t_boundingBox ex_boxedWall)"
proof -
  have 1: "vlength \<lparr>vx = 3, vy = 4, vz = 0\<rparr> = 5"
    by (simp add: vlength_def sqrt_25)
  have 2: "clamp (1 + 0.1 * 5) 1 1.5 = 1.5"
    by (simp add: clamp_def)
  have 3: "orElse (p_radius ex_projectile) 0.3 * velocityScale (p_velocity ex_projectile)
             < orElse (p_radius ex_projectile) 0.3"
    by (simp add: velocityScale_ex_projectile) (simp add: orElse_def ex_projectile_def)
  have 4: "\<not> checkProjectileTargetCollision (allObjects ex_wall) noBox (Some ex_projectile)
               (Some ex_boxedWall)"
    by (simp add: checkProjectileTargetCollision_def velocityScale_ex_projectile ex_boxedWall_def
          orElse_def Let_def)
       (simp add: ex_projectile_def checkSphereBoxCollision_def clampPoint_def distanceTo_def
          Let_def sqrt_9_100)
  have 5: "checkSphereBoxCollision (Some (p_position ex_projectile))
             (0.4 * clamp (1 + 0.1 * 5) 1 1.5) (t_boundingBox ex_boxedWall)"
    by (simp add: ex_projectile_def ex_boxedWall_def clamp_def checkSphereBoxCollision_def
          clampPoint_def distanceTo_def Let_def sqrt_9_100)
  from 1 velocityScale_ex_projectile 2 3 4 5 show ?thesis by blast
qed

subsection \<open>The bounding-volume cache\<close>





subsection \<open>Ground impacts in the collision manager\<close>

lemma sqrt_1_25: "sqrt (1 / 25) = 1 / 5"
  by (rule real_sqrt_unique) (simp_all add: power2_eq_square)

lemma checkGroundCollision_ex_resting: "checkGroundCollision True ex_resting (p_position ex_resting) =
   (True, [CraterEffect (p_position ex_resting) 1.5], Some (deactivateProjectile ex_resting))"
  by (simp add: checkGroundCollision_def handleGroundCollision_def ex_resting_def orElse_def orElseNat_def
      Let_def vlength_def sqrt_1_25 clamp_def power3_eq_cube)

lemma checkGroundCollision_ex_landing: "fst (snd (checkGroundCollision True ex_landing (p_position ex_landing))) =
   [DustEffect (p_position ex_landing) 1.2,
    DustEffect \<lparr>vx = 4.4, vy = 0.5, vz = 5\<rparr> 0.8,
    DustEffect \<lparr>vx = 5.6, vy = 0.5, vz = 5\<rparr> 0.8,
    CraterEffect (p_position ex_landing) 1.2,
    PlaySound ''sounds/effects/impact'' 0.6]"
  by (simp add: checkGroundCollision_def handleGroundCollision_def ex_landing_def orElse_def orElseNat_def
      Let_def vlength_def sqrt_25 clamp_def)

lemma checkGroundCollision_classification:
  "checkGroundCollision hasEffects p position =
     (if vy position \<le> max (orElse (p_radius p) 0.3 * 1.5) 0.5
      then (True, handleGroundCollision hasEffects (Some p) position
                    (Some \<lparr>cd_velocity = p_velocity p,
                           cd_force = (case p_velocity p of Some v \<Rightarrow> vlength v | None \<Rightarrow> 0),
                           cd_bounceCount = orElseNat (p_bounces p) 0,
                           cd_final = (3 \<le> orElseNat (p_bounces p) 0)\<rparr>))
      else (False, [], Some p))"
  by (simp add: checkGroundCollision_def Let_def)


lemma handleGroundCollision_events:
  assumes "\<not> p_hasCollided p"
  shows "fst (handleGroundCollision hasEffects (Some p) position (Some c)) =
     (let impactSpeed = impactSpeedOf p c; impactForce = min (impactSpeed * 1.5) 2.0 in
      if impactSpeed > 0.3 \<or> cd_final c then
        (if hasEffects \<and> impactForce > 0.8 then
            DustEffect position (impactForce * 0.6) #
            (if impactForce > 1.2 then
               [DustEffect \<lparr>vx = vx position + (-1) * (impactForce * 0.3), vy = vy position + 0.2,
                            vz = vz position\<rparr> (impactForce * 0.4),
                DustEffect \<lparr>vx = vx position + 1 * (impactForce * 0.3), vy = vy position + 0.2,
                            vz = vz position\<rparr> (impactForce * 0.4)]
             else [])
         else []) @
        (if hasEffects \<and> (impactForce > 1.2 \<or> cd_final c) then
           [CraterEffect position ((if cd_final c then max impactForce 1.5 else impactForce)
                                   * (if cd_final c then 1.0 else 0.6))]
         else []) @
        (if min (impactForce * 0.3) 0.8 * (0.5 ^ cd_bounceCount c) > 0.1
         then [PlaySound ''sounds/effects/impact''
                 (clamp (min (impactForce * 0.3) 0.8 * (0.5 ^ cd_bounceCount c)) 0.1 0.8)]
         else [])
      else [])"
  unfolding handleGroundCollision_def impactSpeedOf_def Let_def
  using assms
  by (simp only: option.case if_False list.map mult_1 split: option.split) simp

lemma gate_from_force: "min (s * 1.5) 2.0 > (0.8::real) \<Longrightarrow> s > 0.3"
  by (simp add: min_def split: if_splits)

text \<open>
  C6, as amended. The ground check triggers when \<open>position.y \<le> max(1.5 \<times> radius, 0.5)\<close>,
  and the collision is then classified \<open>final = (bounces \<ge> 3)\<close>. With
  \<open>force = min(1.5 \<times> impactSpeed, 2.0)\<close>, where \<open>impactSpeed\<close> is the value that
  \<open>handleGroundCollision\<close> reads from the collision data, and with an effects manager
  present: dust is created exactly when \<open>force > 0.8\<close>; a crater is created exactly
  when \<open>force > 1.2\<close> or the collision is final, of size \<open>max(force, 1.5)\<close> on the
  final stop and \<open>0.6 \<times> force\<close> on a bounce; the projectile is deactivated exactly
  when the collision is final.
\<close>

theorem handleGroundCollision_thresholds:
  assumes "\<not> p_hasCollided p"
  shows "list_ex isDustEffect (fst (handleGroundCollision hasEffects (Some p) position (Some c)))
           = (hasEffects \<and> min (impactSpeedOf p c * 1.5) 2.0 > 0.8)
       \<and> filter isCraterEffect (fst (handleGroundCollision hasEffects (Some p) position (Some c)))
           = (if hasEffects \<and> (min (impactSpeedOf p c * 1.5) 2.0 > 1.2 \<or> cd_final c)
              then [CraterEffect position
                      (if cd_final c then max (min (impactSpeedOf p c * 1.5) 2.0) 1.5
                       else min (impactSpeedOf p c * 1.5) 2.0 * 0.6)]
              else [])
       \<and> snd (handleGroundCollision hasEffects (Some p) position (Some c))
           = Some (if cd_final c then deactivateProjectile p else p)
       \<and> fst (checkGroundCollision hasEffects p position)
           = (vy position \<le> max (orElse (p_radius p) 0.3 * 1.5) 0.5)
       \<and> (vy position \<le> max (orElse (p_radius p) 0.3 * 1.5) 0.5 \<longrightarrow>
            (\<exists>d. snd (checkGroundCollision hasEffects p position)
                    = handleGroundCollision hasEffects (Some p) position (Some d)
                 \<and> cd_final d = (3 \<le> orElseNat (p_bounces p) 0)
                 \<and> cd_bounceCount d = orElseNat (p_bounces p) 0))"
proof -
  define S where "S = impactSpeedOf p c"
  define F where "F = min (S * 1.5) 2.0"
  define snd_evs where "snd_evs = (if min (F * 0.3) 0.8 * (0.5 ^ cd_bounceCount c) > 0.1
         then [PlaySound ''sounds/effects/impact''
                 (clamp (min (F * 0.3) 0.8 * (0.5 ^ cd_bounceCount c)) 0.1 0.8)]
         else [])"
  have snd_nodust: "\<not> list_ex isDustEffect snd_evs" "filter isCraterEffect snd_evs = []"
    by (simp_all add: snd_evs_def)
  have g1: "F > 0.8 \<Longrightarrow> S > 0.3" unfolding F_def by (rule gate_from_force)
  have g2: "F > 1.2 \<Longrightarrow> S > 0.3" using g1 by simp
  have ev: "fst (handleGroundCollision hasEffects (Some p) position (Some c)) =
      (if S > 0.3 \<or> cd_final c then
        (if hasEffects \<and> F > 0.8 then
            DustEffect position (F * 0.6) #
            (if F > 1.2 then
               [DustEffect \<lparr>vx = vx position + (-1) * (F * 0.3), vy = vy position + 0.2,
                            vz = vz position\<rparr> (F * 0.4),
                DustEffect \<lparr>vx = vx position + 1 * (F * 0.3), vy = vy position + 0.2,
                            vz = vz position\<rparr> (F * 0.4)]
             else [])
         else []) @
        (if hasEffects \<and> (F > 1.2 \<or> cd_final c) then
           [CraterEffect position ((if cd_final c then max F 1.5 else F)
                                   * (if cd_final c then 1.0 else 0.6))]
         else []) @ snd_evs
      else [])"
    using handleGroundCollision_events[OF assms, of hasEffects position c]
    by (simp only: Let_def S_def F_def snd_evs_def)
  have d: "list_ex isDustEffect (fst (handleGroundCollision hasEffects (Some p) position (Some c)))
           = (hasEffects \<and> F > 0.8)"
    unfolding ev using g1 snd_nodust
    by (cases "hasEffects"; cases "F > 0.8"; cases "cd_final c"; cases "F > 1.2"; simp)
  have cr: "filter isCraterEffect (fst (handleGroundCollision hasEffects (Some p) position (Some c)))
           = (if hasEffects \<and> (F > 1.2 \<or> cd_final c)
              then [CraterEffect position (if cd_final c then max F 1.5 else F * 0.6)]
              else [])"
    unfolding ev using g2 snd_nodust
    by (cases "hasEffects"; cases "F > 0.8"; cases "cd_final c"; cases "F > 1.2"; simp)
  have pr: "snd (handleGroundCollision hasEffects (Some p) position (Some c))
           = Some (if cd_final c then deactivateProjectile p else p)"
    using assms by (simp add: handleGroundCollision_def Let_def)
  have tr: "fst (checkGroundCollision hasEffects p position)
           = (vy position \<le> max (orElse (p_radius p) 0.3 * 1.5) 0.5)"
    by (simp add: checkGroundCollision_classification)
  have cl: "vy position \<le> max (orElse (p_radius p) 0.3 * 1.5) 0.5 \<longrightarrow>
            (\<exists>d. snd (checkGroundCollision hasEffects p position)
                    = handleGroundCollision hasEffects (Some p) position (Some d)
                 \<and> cd_final d = (3 \<le> orElseNat (p_bounces p) 0)
                 \<and> cd_bounceCount d = orElseNat (p_bounces p) 0)"
  proof
    assume t: "vy position \<le> max (orElse (p_radius p) 0.3 * 1.5) 0.5"
    let ?d = "\<lparr>cd_velocity = p_velocity p,
               cd_force = (case p_velocity p of Some v \<Rightarrow> vlength v | None \<Rightarrow> 0),
               cd_bounceCount = orElseNat (p_bounces p) 0,
               cd_final = (3 \<le> orElseNat (p_bounces p) 0)\<rparr>"
    have "snd (checkGroundCollision hasEffects p position)
            = handleGroundCollision hasEffects (Some p) position (Some ?d)"
      using t by (simp add: checkGroundCollision_classification)
    moreover have "cd_final ?d = (3 \<le> orElseNat (p_bounces p) 0)" by simp
    moreover have "cd_bounceCount ?d = orElseNat (p_bounces p) 0" by simp
    ultimately show "\<exists>d. snd (checkGroundCollision hasEffects p position)
                    = handleGroundCollision hasEffects (Some p) position (Some d)
                 \<and> cd_final d = (3 \<le> orElseNat (p_bounces p) 0)
                 \<and> cd_bounceCount d = orElseNat (p_bounces p) 0"
      by blast
  qed
  show ?thesis using d cr pr tr cl unfolding F_def S_def by blast
qed

theorem handleGroundCollision_thresholds_witness:
  "\<not> list_ex isDustEffect
        (fst (handleGroundCollision True (Some ex_resting) (p_position ex_resting) (Some ex_finalData)))
   \<and> filter isCraterEffect
        (fst (handleGroundCollision True (Some ex_resting) (p_position ex_resting) (Some ex_finalData)))
       = [CraterEffect (p_position ex_resting) 1.5]
   \<and> snd (handleGroundCollision True (Some ex_resting) (p_position ex_resting) (Some ex_finalData))
       = Some (deactivateProjectile ex_resting)
   \<and> fst (checkGroundCollision True ex_resting (p_position ex_resting))"
proof -
  have a: "\<not> p_hasCollided ex_resting"
    by (simp add: ex_resting_def)
  have s: "impactSpeedOf ex_resting ex_finalData = 0.2"
    by (simp add: impactSpeedOf_def ex_finalData_def)
  have f: "cd_final ex_finalData"
    by (simp add: ex_finalData_def)
  have t: "vy (p_position ex_resting) \<le> max (orElse (p_radius ex_resting) 0.3 * 1.5) 0.5"
    by (simp add: ex_resting_def orElse_def)
  show ?thesis
    using handleGroundCollision_thresholds
            [OF a, of True "p_position ex_resting" ex_finalData] t
    by (simp add: s f)
qed


text \<open>
  C6 as stated fails in two places. A projectile at rest on its third bounce, of speed
  \<open>0.2\<close>, leaves a crater although its force is below \<open>1.2\<close> under either formula
  (stated: \<open>0.03\<close>): the crater does depend on the collision being final. A projectile
  landing with speed \<open>5\<close> and no bounce yet raises dust and a crater, where the stated
  force \<open>clamp(5/10 \<times> 1.5, 0, 2) = 0.75\<close> is below both thresholds.
\<close>

theorem checkGroundCollision_counterexample:
  "checkGroundCollision True ex_resting (p_position ex_resting) =
     (True, [CraterEffect (p_position ex_resting) 1.5], Some (deactivateProjectile ex_resting))
   \<and> vlength \<lparr>vx = 0, vy = - 0.2, vz = 0\<rparr> = 0.2
   \<and> \<not> clamp (0.2 / 10 * 1.5) 0 2.0 > 1.2
   \<and> fst (snd (checkGroundCollision True ex_landing (p_position ex_landing))) =
       [DustEffect (p_position ex_landing) 1.2,
        DustEffect \<lparr>vx = 4.4, vy = 0.5, vz = 5\<rparr> 0.8,
        DustEffect \<lparr>vx = 5.6, vy = 0.5, vz = 5\<rparr> 0.8,
        CraterEffect (p_position ex_landing) 1.2,
        PlaySound ''sounds/effects/impact'' 0.6]
   \<and> vlength \<lparr>vx = 3, vy = - 4, vz = 0\<rparr> = 5
   \<and> \<not> clamp (5 / 10 * 1.5) 0 2.0 > 0.8"
proof -
  have 1: "vlength \<lparr>vx = 0, vy = - 0.2, vz = 0\<rparr> = 0.2"
    by (simp add: vlength_def sqrt_1_25)
  have 2: "\<not> clamp (0.2 / 10 * 1.5) 0 2.0 > 1.2"
    by (simp add: clamp_def)
  have 3: "vlength \<lparr>vx = 3, vy = - 4, vz = 0\<rparr> = 5"
    by (simp add: vlength_def sqrt_25)
  have 4: "\<not> clamp (5 / 10 * 1.5) 0 2.0 > 0.8"
    by (simp add: clamp_def)
  from checkGroundCollision_ex_resting 1 2 checkGroundCollision_ex_landing 3 4
  show ?thesis by blast
qed

subsection \<open>Bounces and the terminal stop in the integrator\<close>

lemma bounce_condition:
  "(case b of None \<Rightarrow> True | Some k \<Rightarrow> k = 0 \<or> k < orElseNat mb 3)
     = (orElseNat b 0 < orElseNat mb 3)"
  by (cases b; cases mb) (auto simp add: orElseNat_def)

lemma inactive_update:
  "\<not> (p_active p \<and> \<not> p_hasCollided p) \<Longrightarrow> updateProjectile dt p = Some (p, [])"
  by (cases "p_active p"; cases "p_hasCollided p"; simp add: updateProjectile_def)

lemma inactive_updates:
  "\<not> (p_active p \<and> \<not> p_hasCollided p) \<Longrightarrow> updates dts p = Some (p, [])"
  by (induction dts) (simp_all add: update_def inactive_update)

lemma updateProjectile_contact:
  assumes "p_active p" and "\<not> p_hasCollided p" and "p_velocity p = Some v0"
    and "v1 = v0\<lparr>vy := vy v0 + p_gravity p * dt\<rparr>"
    and "vy (p_position p) + vy v1 * dt \<le> 0.3"
  shows "updateProjectile dt p =
           Some (if vlength v1 > 1.0 \<and> orElseNat (p_bounces p) 0 < orElseNat (p_maxBounces p) 3
                 then (bounced dt p v1,
                       groundCallback p (landed dt p v1) (the (p_velocity (bounced dt p v1)))
                         (vlength v1) False)
                 else (stopped dt p v1,
                       groundCallback p (landed dt p v1) \<lparr>vx = 0, vy = 0, vz = 0\<rparr>
                         (vlength v1) True))"
  using assms
  by (simp add: updateProjectile_def Let_def bounce_condition landed_def bounced_def stopped_def
        groundCallback_def)

lemma update_step_cases:
  assumes "update dt p = Some (p1, h1)" and "p_active p" and "\<not> p_hasCollided p"
  shows "p_onCollision p1 = p_onCollision p \<and>
         ((p_active p1 \<and> \<not> p_hasCollided p1 \<and> filter gh_final h1 = [])
          \<or> (\<not> p_active p1 \<and> p_hasCollided p1
              \<and> length (filter gh_final h1) = (if p_onCollision p then 1 else 0)))"
proof (cases "p_velocity p")
  case None
  with assms show ?thesis by (simp add: update_def updateProjectile_def)
next
  case (Some v0)
  define d where "d = min dt (1 / 30)"
  define v1 where "v1 = v0\<lparr>vy := vy v0 + p_gravity p * d\<rparr>"
  show ?thesis
  proof (cases "vy (p_position p) + vy v1 * d \<le> 0.3")
    case True
    from updateProjectile_contact[OF assms(2,3) Some v1_def True]
    have "updateProjectile d p = Some (p1, h1) \<Longrightarrow> ?thesis"
      using assms(2,3)
      by (cases "1 < vlength v1 \<and> orElseNat (p_bounces p) 0 < orElseNat (p_maxBounces p) 3";
          cases "p_onCollision p"; auto simp add: bounced_def stopped_def groundCallback_def)
    with assms(1) show ?thesis
      by (simp add: update_def d_def)
  next
    case False
    with assms Some show ?thesis
      by (auto simp add: update_def updateProjectile_def Let_def d_def v1_def)
  qed
qed

lemma updates_run:
  assumes "updates dts p = Some (q, hs)" and "p_active p" and "\<not> p_hasCollided p"
  shows "(p_active q \<and> \<not> p_hasCollided q \<and> filter gh_final hs = [])
          \<or> (\<not> p_active q \<and> p_hasCollided q
              \<and> length (filter gh_final hs) = (if p_onCollision p then 1 else 0))"
  using assms
proof (induction dts arbitrary: p q hs)
  case Nil
  then show ?case by simp
next
  case (Cons dt dts)
  from Cons.prems(1) obtain p1 h1 q2 h2 where
    s1: "update dt p = Some (p1, h1)" and s2: "updates dts p1 = Some (q2, h2)"
    and e: "q = q2" "hs = h1 @ h2"
    by (auto split: option.splits)
  from update_step_cases[OF s1 Cons.prems(2,3)]
  have oc: "p_onCollision p1 = p_onCollision p"
    and c: "(p_active p1 \<and> \<not> p_hasCollided p1 \<and> filter gh_final h1 = [])
          \<or> (\<not> p_active p1 \<and> p_hasCollided p1
              \<and> length (filter gh_final h1) = (if p_onCollision p then 1 else 0))"
    by simp_all
  from c show ?case
  proof
    assume a: "p_active p1 \<and> \<not> p_hasCollided p1 \<and> filter gh_final h1 = []"
    from Cons.IH[OF s2] a oc e show ?thesis by auto
  next
    assume a: "\<not> p_active p1 \<and> p_hasCollided p1
              \<and> length (filter gh_final h1) = (if p_onCollision p then 1 else 0)"
    then have "updates dts p1 = Some (p1, [])" by (intro inactive_updates) simp
    with s2 have "q2 = p1" "h2 = []" by simp_all
    with a e show ?thesis by simp
  qed
qed

text \<open>
  C8. An active, uncollided projectile is stepped by \<open>dt\<close>; \<open>v1\<close> is its velocity after
  gravity, and the step brings it to the ground (\<open>y \<le> 0.3\<close>). If its speed \<open>|v1|\<close>
  exceeds \<open>1.0\<close> and its bounce count is below \<open>maxBounces\<close> (\<open>3\<close> when not set), the step
  sets \<open>vy\<close> to \<open>|vy| \<times> 0.5\<close>, scales \<open>vx\<close> and \<open>vz\<close> by \<open>0.7\<close>, increments the
  bounce counter and leaves the projectile active and uncollided, firing the callback
  without \<open>final\<close>. Otherwise the step zeroes the velocity, sets \<open>active = false\<close> and
  \<open>hasCollided = true\<close> and fires the callback with \<open>final = true\<close>. This happens once:
  every later tick leaves the stopped projectile as it is and fires nothing, and over any
  run of ticks either no terminal callback is fired and the projectile is still active,
  or the projectile is stopped and exactly one terminal callback was fired (none if no
  callback is registered). Hence bouncing alone never deactivates a projectile.
\<close>

theorem updateProjectile_ground_contact:
  assumes "p_active p" and "\<not> p_hasCollided p" and "p_velocity p = Some v0"
    and "v1 = v0\<lparr>vy := vy v0 + p_gravity p * dt\<rparr>"
    and "vy (p_position p) + vy v1 * dt \<le> 0.3"
  shows "updateProjectile dt p =
           Some (if vlength v1 > 1.0 \<and> orElseNat (p_bounces p) 0 < orElseNat (p_maxBounces p) 3
                 then (p\<lparr>p_position := landed dt p v1,
                         p_velocity := Some \<lparr>vx = vx v1 * 0.7, vy = \<bar>vy v1\<bar> * 0.5, vz = vz v1 * 0.7\<rparr>,
                         p_bounces := Some (orElseNat (p_bounces p) 0 + 1)\<rparr>,
                       groundCallback p (landed dt p v1)
                         \<lparr>vx = vx v1 * 0.7, vy = \<bar>vy v1\<bar> * 0.5, vz = vz v1 * 0.7\<rparr> (vlength v1) False)
                 else (stopped dt p v1,
                       groundCallback p (landed dt p v1) \<lparr>vx = 0, vy = 0, vz = 0\<rparr>
                         (vlength v1) True))
       \<and> p_active (bounced dt p v1) \<and> \<not> p_hasCollided (bounced dt p v1)
       \<and> \<not> p_active (stopped dt p v1) \<and> p_hasCollided (stopped dt p v1)
       \<and> p_velocity (stopped dt p v1) = Some \<lparr>vx = 0, vy = 0, vz = 0\<rparr>
       \<and> updates later (stopped dt p v1) = Some (stopped dt p v1, [])
       \<and> (updates ticks p = Some (q, hs) \<longrightarrow>
            (p_active q \<and> \<not> p_hasCollided q \<and> filter gh_final hs = [])
            \<or> (\<not> p_active q \<and> p_hasCollided q
                \<and> length (filter gh_final hs) = (if p_onCollision p then 1 else 0)))"
proof -
  have 1: "updateProjectile dt p =
           Some (if vlength v1 > 1.0 \<and> orElseNat (p_bounces p) 0 < orElseNat (p_maxBounces p) 3
                 then (p\<lparr>p_position := landed dt p v1,
                         p_velocity := Some \<lparr>vx = vx v1 * 0.7, vy = \<bar>vy v1\<bar> * 0.5, vz = vz v1 * 0.7\<rparr>,
                         p_bounces := Some (orElseNat (p_bounces p) 0 + 1)\<rparr>,
                       groundCallback p (landed dt p v1)
                         \<lparr>vx = vx v1 * 0.7, vy = \<bar>vy v1\<bar> * 0.5, vz = vz v1 * 0.7\<rparr> (vlength v1) False)
                 else (stopped dt p v1,
                       groundCallback p (landed dt p v1) \<lparr>vx = 0, vy = 0, vz = 0\<rparr>
                         (vlength v1) True))"
    using updateProjectile_contact[OF assms] by (simp add: bounced_def)
  have 2: "p_active (bounced dt p v1) \<and> \<not> p_hasCollided (bounced dt p v1)"
    using assms(1,2) by (simp add: bounced_def)
  have 3: "\<not> p_active (stopped dt p v1) \<and> p_hasCollided (stopped dt p v1)
           \<and> p_velocity (stopped dt p v1) = Some \<lparr>vx = 0, vy = 0, vz = 0\<rparr>"
    by (simp add: stopped_def)
  have 4: "updates later (stopped dt p v1) = Some (stopped dt p v1, [])"
    using 3 by (intro inactive_updates) simp
  have 5: "updates ticks p = Some (q, hs) \<longrightarrow>
            (p_active q \<and> \<not> p_hasCollided q \<and> filter gh_final hs = [])
            \<or> (\<not> p_active q \<and> p_hasCollided q
                \<and> length (filter gh_final hs) = (if p_onCollision p then 1 else 0))"
    using updates_run[OF _ assms(1,2)] by blast
  from 1 2 3 4 5 show ?thesis by blast
qed


theorem updateProjectile_ground_contact_witness:
  "updateProjectile (1 / 30) ex_landing = Some (bounced (1 / 30) ex_landing ex_landing_v1, [])
   \<and> p_active (bounced (1 / 30) ex_landing ex_landing_v1)
   \<and> p_bounces (bounced (1 / 30) ex_landing ex_landing_v1) = Some 1
   \<and> updateProjectile (1 / 30) ex_resting = Some (stopped (1 / 30) ex_resting ex_resting_v1, [])
   \<and> updates [1 / 30, 1 / 30] (stopped (1 / 30) ex_resting ex_resting_v1)
       = Some (stopped (1 / 30) ex_resting ex_resting_v1, [])
   \<and> updates [1 / 30] ex_landing = Some (bounced (1 / 30) ex_landing ex_landing_v1, [])
   \<and> filter gh_final [] = ([] :: groundHit list)"
proof -
  have a1: "p_active ex_landing" and a2: "\<not> p_hasCollided ex_landing"
    and a3: "p_velocity ex_landing = Some \<lparr>vx = 3, vy = - 4, vz = 0\<rparr>"
    and a4: "ex_landing_v1 = \<lparr>vx = 3, vy = - 4, vz = 0\<rparr>\<lparr>vy := vy \<lparr>vx = 3, vy = - 4, vz = 0\<rparr>
                                + p_gravity ex_landing * (1 / 30)\<rparr>"
    and a5: "vy (p_position ex_landing) + vy ex_landing_v1 * (1 / 30) \<le> 0.3"
    by (simp_all add: ex_landing_def ex_landing_v1_def)
  have b1: "p_active ex_resting" and b2: "\<not> p_hasCollided ex_resting"
    and b3: "p_velocity ex_resting = Some \<lparr>vx = 0, vy = - 0.2, vz = 0\<rparr>"
    and b4: "ex_resting_v1 = \<lparr>vx = 0, vy = - 0.2, vz = 0\<rparr>\<lparr>vy := vy \<lparr>vx = 0, vy = - 0.2, vz = 0\<rparr>
                                + p_gravity ex_resting * (1 / 30)\<rparr>"
    and b5: "vy (p_position ex_resting) + vy ex_resting_v1 * (1 / 30) \<le> 0.3"
    by (simp_all add: ex_resting_def ex_resting_v1_def)
  have fast: "vlength ex_landing_v1 > 1.0"
    by (simp add: vlength_def ex_landing_v1_def)
  have cnt: "orElseNat (p_bounces ex_landing) 0 < orElseNat (p_maxBounces ex_landing) 3"
    by (simp add: orElseNat_def ex_landing_def)
  have cnt': "\<not> orElseNat (p_bounces ex_resting) 0 < orElseNat (p_maxBounces ex_resting) 3"
    by (simp add: orElseNat_def ex_resting_def)
  have nocb: "\<not> p_onCollision ex_landing" "\<not> p_onCollision ex_resting"
    by (simp_all add: ex_landing_def ex_resting_def)
  have b: "p_bounces (bounced (1 / 30) ex_landing ex_landing_v1) = Some 1"
    by (simp add: bounced_def orElseNat_def ex_landing_def)
  note L = updateProjectile_ground_contact
             [of ex_landing "\<lparr>vx = 3, vy = - 4, vz = 0\<rparr>" ex_landing_v1 "1 / 30" "[]" "[1 / 30]"
                 "bounced (1 / 30) ex_landing ex_landing_v1" "[]", OF a1 a2 a3 a4 a5]
  note R = updateProjectile_ground_contact
             [of ex_resting "\<lparr>vx = 0, vy = - 0.2, vz = 0\<rparr>" ex_resting_v1 "1 / 30"
                 "[1 / 30, 1 / 30]" "[]" ex_resting "[]", OF b1 b2 b3 b4 b5]
  from L fast cnt nocb(1) have l1:
    "updateProjectile (1 / 30) ex_landing = Some (bounced (1 / 30) ex_landing ex_landing_v1, [])"
    by (simp add: groundCallback_def bounced_def)
  from L have l2: "p_active (bounced (1 / 30) ex_landing ex_landing_v1)"
    by blast
  from R cnt' nocb(2) have r1:
    "updateProjectile (1 / 30) ex_resting = Some (stopped (1 / 30) ex_resting ex_resting_v1, [])"
    by (simp add: groundCallback_def)
  from R have r2: "updates [1 / 30, 1 / 30] (stopped (1 / 30) ex_resting ex_resting_v1)
       = Some (stopped (1 / 30) ex_resting ex_resting_v1, [])"
    by blast
  from l1 have e: "updates [1 / 30] ex_landing
                     = Some (bounced (1 / 30) ex_landing ex_landing_v1, [])"
    by (simp add: update_def)
  from L e have "p_active (bounced (1 / 30) ex_landing ex_landing_v1)
                 \<and> \<not> p_hasCollided (bounced (1 / 30) ex_landing ex_landing_v1)
                 \<and> filter gh_final [] = ([] :: groundHit list)"
    by blast
  with l1 l2 b r1 r2 e show ?thesis by blast
qed


subsection \<open>Area damage of an explosion\<close>

lemma explosionDamageTarget_untouched:
  "\<not> touches i tw \<Longrightarrow> fst (explosionDamageTarget c r md tw objs) i = objs i"
  by (auto simp add: touches_def explosionDamageTarget_def Let_def split: option.splits)

lemma maxHealth_already_set:
  "m_maxHealth m = Some mh \<Longrightarrow> m\<lparr>m_maxHealth := Some mh, m_health := h\<rparr> = m\<lparr>m_health := h\<rparr>"
  by (cases m) simp

lemma explosionDamageTarget_hit:
  assumes "t_mesh tw = Some i"
  shows "explosionDamageTarget c r md (Some tw) objs =
    (if distanceTo c (m_position (objs i)) < r \<and> t_type tw \<noteq> ''ground''
     then (objs(i := (objs i)\<lparr>m_maxHealth := Some (maxHealthOrBase (t_type tw) (objs i)),
                              m_health := Some (max 0 (healthOrBase (t_type tw) (objs i)
                                   - real_of_int \<lfloor>md * (1 - distanceTo c (m_position (objs i)) / r)\<rfloor>))\<rparr>),
           (Some tw, max 0 (healthOrBase (t_type tw) (objs i)
                                   - real_of_int \<lfloor>md * (1 - distanceTo c (m_position (objs i)) / r)\<rfloor>) \<le> 0))
     else (objs, (Some tw, False)))"
  using assms
  by (cases "m_health (objs i)"; cases "m_maxHealth (objs i)")
     (simp_all add: explosionDamageTarget_def Let_def healthOrBase_def maxHealthOrBase_def
        maxHealth_already_set)

lemma explosionDamage_untouched:
  "\<not> list_ex (touches i) tws \<Longrightarrow> fst (explosionDamage c r md tws objs) i = objs i"
proof (induction tws arbitrary: objs)
  case Nil
  then show ?case by simp
next
  case (Cons tw tws)
  then show ?case
    using explosionDamageTarget_untouched[of i tw c r md objs]
    by (simp add: split_beta Let_def)
qed

lemma explosionDamage_append:
  "explosionDamage c r md (xs @ ys) objs =
     (fst (explosionDamage c r md ys (fst (explosionDamage c r md xs objs))),
      snd (explosionDamage c r md xs objs) @ snd (explosionDamage c r md ys (fst (explosionDamage c r md xs objs))))"
  by (induction xs arbitrary: objs) (simp_all add: split_beta Let_def)

lemma explosionDamage_targets: "map fst (snd (explosionDamage c r md tws objs)) = tws"
proof (induction tws arbitrary: objs)
  case Nil
  then show ?case by simp
next
  case (Cons tw tws)
  have "fst (snd (explosionDamageTarget c r md tw objs)) = tw"
    by (simp add: explosionDamageTarget_def Let_def split: option.splits)
  with Cons show ?case by (simp add: split_beta Let_def)
qed

lemma explosionDamage_length: "length (snd (explosionDamage c r md tws objs)) = length tws"
  using explosionDamage_targets[of c r md tws objs] by (metis length_map)


lemma dist3: "distanceTo origin3 \<lparr>vx = 3, vy = 0, vz = 0\<rparr> = 3"
  by (simp add: distanceTo_def origin3_def sqrt_9)

text \<open>
  The lists that \<open>getCollisionTargets\<close> builds hold at most one non-ground wrapper of
  each object, so the condition of the next theorem holds for them.
\<close>

lemma getCollisionTargets_object_touches:
  "length (filter (touches i) (getCollisionTargets_object boxOf objs j)) \<le> (if i = j then 1 else 0)"
  by (simp add: getCollisionTargets_object_def touches_def wrapper_def Let_def)

lemma getCollisionTargets_one_wrapper:
  "distinct ids \<Longrightarrow> length (filter (touches i) (getCollisionTargets boxOf objs ids)) \<le> 1"
proof (induction ids)
  case Nil
  then show ?case by (simp add: getCollisionTargets_def)
next
  case (Cons j ids)
  have here: "length (filter (touches i) (getCollisionTargets_object boxOf objs j))
                \<le> (if i = j then 1 else 0)"
    by (rule getCollisionTargets_object_touches)
  have rest: "i \<notin> set ids \<Longrightarrow> filter (touches i) (getCollisionTargets boxOf objs ids) = []"
  proof (induction ids)
    case Nil
    then show ?case by (simp add: getCollisionTargets_def)
  next
    case (Cons k ks)
    then have "i \<noteq> k" and "i \<notin> set ks" by simp_all
    with Cons.IH getCollisionTargets_object_touches[of i boxOf objs k]
    show ?case by (simp add: getCollisionTargets_def)
  qed
  show ?case
  proof (cases "i = j")
    case True
    with Cons.prems have "i \<notin> set ids" by simp
    with rest here True show ?thesis by (simp add: getCollisionTargets_def)
  next
    case False
    with here Cons show ?thesis by (simp add: getCollisionTargets_def)
  qed
qed

lemma one_wrapper_elsewhere:
  assumes "length (filter (touches i) (pre @ tw # post)) \<le> 1" and "touches i tw"
  shows "\<not> list_ex (touches i) (pre @ post)"
proof -
  from assms have "length (filter (touches i) pre) + length (filter (touches i) post) = 0"
    by simp
  then have "filter (touches i) pre = []" and "filter (touches i) post = []"
    by simp_all
  then show ?thesis
    by (auto simp add: filter_empty_conv list_ex_iff)
qed

text \<open>
  C5. Let a wrapper of object \<open>i\<close> occur in \<open>targets\<close>, no other non-ground wrapper of
  \<open>i\<close> occurring in the list, and let \<open>d\<close> be the distance of \<open>i\<close> from the centre.
  If \<open>d < radius\<close> and the wrapper is not of type ground, \<open>explosionDamage\<close> leaves
  the health of \<open>i\<close> at \<open>max(0, health - floor(maxDamage \<times> (1 - d/radius)))\<close>, where a
  health not yet set counts as the base value of the type, and reports the wrapper as
  destroyed exactly when that health is \<open>\<le> 0\<close>; a ground wrapper, or one at distance
  \<open>\<ge> radius\<close>, leaves the object untouched and is reported not destroyed. The witness
  is Scenario B: a barrel at distance 3, radius 8, maximal damage 150, takes 93.
\<close>

theorem explosionDamage_linear_falloff:
  assumes "t_mesh tw = Some i" and "\<not> list_ex (touches i) (pre @ post)"
    and "d = distanceTo center (m_position (objs i))"
  shows "fst (explosionDamage center radius maxDamage (pre @ Some tw # post) objs) i =
           (if d < radius \<and> t_type tw \<noteq> ''ground''
            then (objs i)\<lparr>m_maxHealth := Some (maxHealthOrBase (t_type tw) (objs i)),
                          m_health := Some (max 0 (healthOrBase (t_type tw) (objs i)
                                             - real_of_int \<lfloor>maxDamage * (1 - d / radius)\<rfloor>))\<rparr>
            else objs i)
       \<and> snd (explosionDamage center radius maxDamage (pre @ Some tw # post) objs) ! length pre =
           (Some tw, d < radius \<and> t_type tw \<noteq> ''ground''
                     \<and> max 0 (healthOrBase (t_type tw) (objs i)
                               - real_of_int \<lfloor>maxDamage * (1 - d / radius)\<rfloor>) \<le> 0)"
proof -
  define objs1 where "objs1 = fst (explosionDamage center radius maxDamage pre objs)"
  define step where "step = explosionDamageTarget center radius maxDamage (Some tw) objs1"
  have pre: "objs1 i = objs i"
    unfolding objs1_def using assms(2) by (intro explosionDamage_untouched) simp
  have post: "fst (explosionDamage center radius maxDamage post (fst step)) i = fst step i"
    using assms(2) by (intro explosionDamage_untouched) simp
  have stepv: "step =
    (if d < radius \<and> t_type tw \<noteq> ''ground''
     then (objs1(i := (objs i)\<lparr>m_maxHealth := Some (maxHealthOrBase (t_type tw) (objs i)),
                              m_health := Some (max 0 (healthOrBase (t_type tw) (objs i)
                                   - real_of_int \<lfloor>maxDamage * (1 - d / radius)\<rfloor>))\<rparr>),
           (Some tw, max 0 (healthOrBase (t_type tw) (objs i)
                                   - real_of_int \<lfloor>maxDamage * (1 - d / radius)\<rfloor>) \<le> 0))
     else (objs1, (Some tw, False)))"
    unfolding step_def
    using explosionDamageTarget_hit[OF assms(1), of center radius maxDamage objs1]
    by (simp only: pre assms(3))
  have whole: "explosionDamage center radius maxDamage (pre @ Some tw # post) objs =
     (fst (explosionDamage center radius maxDamage post (fst step)),
      snd (explosionDamage center radius maxDamage pre objs) @
        snd step # snd (explosionDamage center radius maxDamage post (fst step)))"
    by (simp add: explosionDamage_append split_beta Let_def objs1_def step_def)
  have len: "length (snd (explosionDamage center radius maxDamage pre objs)) = length pre"
    by (rule explosionDamage_length)
  have a: "fst (explosionDamage center radius maxDamage (pre @ Some tw # post) objs) i = fst step i"
    by (simp add: whole post)
  have b: "snd (explosionDamage center radius maxDamage (pre @ Some tw # post) objs) ! length pre = snd step"
    by (simp add: whole nth_append len)
  show ?thesis
    unfolding a b stepv using pre by simp
qed


theorem explosionDamage_linear_falloff_witness:
  "fst (explosionDamage origin3 8 150 ([] @ Some ex_barrelTarget # []) (allObjects ex_barrel)) 0
     = ex_barrel\<lparr>m_health := Some 7\<rparr>
   \<and> snd (explosionDamage origin3 8 150 ([] @ Some ex_barrelTarget # []) (allObjects ex_barrel)) ! 0
     = (Some ex_barrelTarget, False)
   \<and> distanceTo origin3 (m_position ex_barrel) = 3
   \<and> \<lfloor>(150::real) * (1 - 3 / 8)\<rfloor> = 93"
proof -
  have a: "t_mesh ex_barrelTarget = Some 0"
    by (simp add: ex_barrelTarget_def)
  have b: "\<not> list_ex (touches 0) ([] @ [])"
    by simp
  have c: "3 = distanceTo origin3 (m_position (allObjects ex_barrel 0))"
    by (simp add: allObjects_def ex_barrel_def dist3)
  have f: "\<lfloor>(150::real) * (1 - 3 / 8)\<rfloor> = 93"
    by simp
  have h: "healthOrBase (t_type ex_barrelTarget) (allObjects ex_barrel 0) = 100"
    and m: "maxHealthOrBase (t_type ex_barrelTarget) (allObjects ex_barrel 0) = 100"
    and ty: "t_type ex_barrelTarget \<noteq> ''ground''"
    by (simp_all add: healthOrBase_def maxHealthOrBase_def allObjects_def ex_barrel_def
          ex_barrelTarget_def)
  have e: "(allObjects ex_barrel 0)\<lparr>m_maxHealth := Some 100, m_health := Some 7\<rparr>
             = ex_barrel\<lparr>m_health := Some 7\<rparr>"
    by (simp add: allObjects_def ex_barrel_def)
  have d3: "distanceTo origin3 (m_position ex_barrel) = 3"
    by (simp add: ex_barrel_def dist3)
  show ?thesis
    using explosionDamage_linear_falloff
            [of ex_barrelTarget 0 "[]" "[]" 3 origin3 "allObjects ex_barrel" 8 150, OF a b c]
          ty
    by (simp add: f h m e d3)
qed

subsection \<open>Dragged entities\<close>

lemma checkCollisions_targets_skips_dragged:
  "checkCollisions_targets objs fallbackBox p tgts = Some t
     \<Longrightarrow> \<exists>i. t_mesh t = Some i \<and> \<not> m_isDragging (objs i)"
  by (induction tgts) (auto split: option.splits if_splits)

text \<open>
  C3 does not hold for the area damage. The projectile loop of \<open>checkCollisions\<close> skips
  a dragged target (lemma \<open>checkCollisions_targets_skips_dragged\<close>): the wall that an
  overlapping projectile hits is not hit while it is dragged. But
  \<open>explosionDamage\<close> never reads \<open>isDragging\<close>: a dragged wall of health 200 at
  distance 3 from an explosion of radius 8 and maximal damage 150 is left with health
  107.
\<close>

theorem explosionDamage_ignores_isDragging:
  "m_isDragging (allObjects ex_draggedWall 0)
   \<and> m_health (allObjects ex_draggedWall 0) = Some 200
   \<and> m_health (fst (explosionDamage origin3 8 150 [Some ex_wallTarget] (allObjects ex_draggedWall)) 0)
       = Some 107
   \<and> checkCollisions_targets (allObjects ex_wall) noBox ex_overlapping [Some ex_boxedWall]
       = Some ex_boxedWall
   \<and> checkCollisions_targets (allObjects ex_draggedWall) noBox ex_overlapping [Some ex_boxedWall]
       = None"
proof -
  have 1: "m_isDragging (allObjects ex_draggedWall 0)"
    and 2: "m_health (allObjects ex_draggedWall 0) = Some 200"
    by (simp_all add: allObjects_def ex_draggedWall_def ex_wall_def)
  have d: "distanceTo origin3 (m_position (allObjects ex_draggedWall 0)) = 3"
    by (simp add: allObjects_def ex_draggedWall_def ex_wall_def dist3)
  have 3: "m_health (fst (explosionDamage origin3 8 150 [Some ex_wallTarget]
                            (allObjects ex_draggedWall)) 0) = Some 107"
    by (simp add: explosionDamageTarget_def ex_wallTarget_def d Let_def split_beta)
       (simp add: allObjects_def ex_draggedWall_def ex_wall_def)
  have hit: "checkProjectileTargetCollision objs noBox (Some ex_overlapping) (Some ex_boxedWall)" for objs
    by (simp add: checkProjectileTargetCollision_def ex_overlapping_def ex_boxedWall_def
          velocityScale_ex_projectile Let_def)
       (simp add: checkSphereBoxCollision_def clampPoint_def distanceTo_def orElse_def
          ex_projectile_def)
  have 4: "checkCollisions_targets (allObjects ex_wall) noBox ex_overlapping [Some ex_boxedWall]
             = Some ex_boxedWall"
    using hit[of "allObjects ex_wall"]
    by (simp add: ex_boxedWall_def allObjects_def ex_wall_def)
  have 5: "checkCollisions_targets (allObjects ex_draggedWall) noBox ex_overlapping [Some ex_boxedWall]
             = None"
    by (simp add: ex_boxedWall_def allObjects_def ex_draggedWall_def)
  from 1 2 3 4 5 show ?thesis by blast
qed


subsection \<open>The \<open>isExploding\<close> flag\<close>

text \<open>
  The scan of the chain reaction checks the flag and sets it before the \<open>setTimeout\<close>:
  a barrel whose flag is set is left alone, and a barrel that is scheduled has its flag
  set and gets the delay \<open>100 + Math.random() \<times> 200\<close>, within \<open>[100, 300)\<close>.
\<close>

lemma handleChainReaction_child_skips_exploding:
  "m_isExploding (w_objects w child) \<Longrightarrow> handleChainReaction_child barrelMesh position w child = w"
  by (simp add: handleChainReaction_child_def)

lemma handleChainReaction_child_delay:
  assumes "0 \<le> w_random w (w_drawn w)" and "w_random w (w_drawn w) < 1"
  shows "w_timers (handleChainReaction_child barrelMesh position w child) = w_timers w
         \<or> (\<exists>delay. w_timers (handleChainReaction_child barrelMesh position w child)
                        = w_timers w @ [(delay, child)]
                     \<and> 100 \<le> delay \<and> delay < 300
                     \<and> \<not> m_isExploding (w_objects w child)
                     \<and> m_isExploding (w_objects (handleChainReaction_child barrelMesh position w child) child))"
  using assms by (simp add: handleChainReaction_child_def Let_def)

text \<open>
  C2 does not hold for the direct hit. \<open>handleImpactEffects\<close> calls
  \<open>triggerBarrelExplosion\<close>, which tests \<open>mesh\<close>, \<open>parent\<close> and \<open>isDragging\<close> but
  not \<open>isExploding\<close>. Barrel 2 has its flag set and its detonation pending (150 ms);
  hit directly, it is triggered at once: the scan runs and schedules barrel 3, the
  explosion effects are played and the barrel is removed from the scene. The guarded
  variant \<open>handleBarrelImpact\<close>, which no function calls, leaves the world unchanged.
\<close>

theorem handleImpactEffects_ignores_isExploding:
  "m_isExploding (w_objects ex_world 2)
   \<and> w_timers ex_world = [(150, 2)]
   \<and> map_option w_calls (handleImpactEffects [] ex_hitBarrel origin3 1 ex_world)
       = Some [PlaySound ''sounds/effects/chain_reaction'' 0.8,
               DustEffect origin3 2.0,
               DustEffect \<lparr>vx = - 2, vy = 0.2, vz = 0\<rparr> 1.5,
               DustEffect \<lparr>vx = 2, vy = 0.2, vz = 0\<rparr> 1.5,
               ExplosionEffect origin3 3.0,
               PlaySound ''sounds/effects/explosion'' 1.0]
   \<and> map_option w_timers (handleImpactEffects [] ex_hitBarrel origin3 1 ex_world)
       = Some [(150, 2), (200, 3)]
   \<and> map_option w_children (handleImpactEffects [] ex_hitBarrel origin3 1 ex_world) = Some [3]
   \<and> handleBarrelImpact [] ex_hitBarrel origin3 ex_world = ex_world"
proof -
  have o1: "w_objects ex_world 2 = ex_barrelA" and o2: "w_objects ex_world 3 = ex_barrelB"
    by (simp_all add: ex_world_def allObjects_def)
  have d: "distanceTo (m_position ex_barrelA) (m_position ex_barrelB) = 3"
    using dist3 by (simp add: ex_barrelA_def ex_barrelB_def origin3_def)
  have t: "triggerBarrelExplosion [] \<lparr>t_mesh = Some 2, t_type = ''barrel'', t_position = None,
             t_boundingBox = None\<rparr> (m_position ex_barrelA) ex_world
           = ex_world\<lparr>w_objects := ((allObjects ex_barrelB)
                          (2 := ex_barrelA\<lparr>m_parent := Detached, m_explosive := True\<rparr>))
                          (3 := ex_barrelB\<lparr>m_isExploding := True\<rparr>),
                       w_children := [3],
                       w_timers := [(150, 2), (200, 3)],
                       w_calls := [PlaySound ''sounds/effects/chain_reaction'' 0.8,
                                   DustEffect origin3 2.0,
                                   DustEffect \<lparr>vx = - 2, vy = 0.2, vz = 0\<rparr> 1.5,
                                   DustEffect \<lparr>vx = 2, vy = 0.2, vz = 0\<rparr> 1.5,
                                   ExplosionEffect origin3 3.0,
                                   PlaySound ''sounds/effects/explosion'' 1.0],
                       w_drawn := 1\<rparr>"
    apply (simp add: triggerBarrelExplosion_def handleChainReaction_def handleChainReaction_child_def
        sceneRemove_def ex_world_def allObjects_def Let_def chainReactionRadius_def d)
    apply (simp add: ex_barrelA_def ex_barrelB_def ex_half_def fun_upd_twist origin3_def)
    done
  have 1: "m_isExploding (w_objects ex_world 2)"
    by (simp add: o1 ex_barrelA_def)
  have 2: "w_timers ex_world = [(150, 2)]"
    by (simp add: ex_world_def)
  have h: "handleImpactEffects [] ex_hitBarrel origin3 1 ex_world
             = Some (triggerBarrelExplosion [] \<lparr>t_mesh = Some 2, t_type = ''barrel'', t_position = None,
                       t_boundingBox = None\<rparr> (m_position ex_barrelA) ex_world)"
    by (simp add: handleImpactEffects_def ex_hitBarrel_def o1)
  have 6: "handleBarrelImpact [] ex_hitBarrel origin3 ex_world = ex_world"
    using 1 by (simp add: handleBarrelImpact_def ex_hitBarrel_def)
  have 3: "map_option w_calls (handleImpactEffects [] ex_hitBarrel origin3 1 ex_world)
       = Some [PlaySound ''sounds/effects/chain_reaction'' 0.8,
               DustEffect origin3 2.0,
               DustEffect \<lparr>vx = - 2, vy = 0.2, vz = 0\<rparr> 1.5,
               DustEffect \<lparr>vx = 2, vy = 0.2, vz = 0\<rparr> 1.5,
               ExplosionEffect origin3 3.0,
               PlaySound ''sounds/effects/explosion'' 1.0]"
    by (simp add: h t)
  have 4: "map_option w_timers (handleImpactEffects [] ex_hitBarrel origin3 1 ex_world)
       = Some [(150, 2), (200, 3)]"
    by (simp add: h t)
  have 5: "map_option w_children (handleImpactEffects [] ex_hitBarrel origin3 1 ex_world) = Some [3]"
    by (simp add: h t)
  from 1 2 3 4 5 6 show ?thesis
    by blast
qed


end
